theory Spec2Isabelle
  imports Complex_Main "HOL-Library.AList" "HOL-Library.Word"
begin

section \<open>The OOO leave canister: data model\<close>

text \<open>
  The canister (the current \<^verbatim>\<open>index.ts\<close>, with \<^verbatim>\<open>utils.ts\<close> and \<^verbatim>\<open>types.ts\<close>) keeps two
  \<^verbatim>\<open>StableBTreeMap\<close>s, one of users keyed by principal and one of leaves keyed by a uuid.
  A \<^verbatim>\<open>nat64\<close> is a 64-bit word, a \<^verbatim>\<open>Principal\<close> is given by its textual form, and a string
  is a list of 8-bit characters, read as the code units U+0000 to U+00FF.
\<close>

type_synonym principal = string
type_synonym nat64 = "64 word"

subsection \<open>Numbers\<close>

text \<open>
  A JavaScript \<^verbatim>\<open>number\<close> (a \<^verbatim>\<open>float64\<close> of the interface) is a finite number, one of the two
  infinities, or NaN. The finite numbers are the reals and their arithmetic is exact: the
  rounding of a float and its overflow are not modelled, and \<open>Num 0\<close> stands for both zeros.
\<close>

datatype number = Num real | PosInf | NegInf | NaN

text \<open>\<^verbatim>\<open>a < b\<close>: false as soon as one side is NaN.\<close>

definition js_lt :: "number \<Rightarrow> number \<Rightarrow> bool" where
  "js_lt a b =
     (case (a, b) of
        (Num x, Num y) \<Rightarrow> x < y
      | (Num x, PosInf) \<Rightarrow> True
      | (NegInf, Num y) \<Rightarrow> True
      | (NegInf, PosInf) \<Rightarrow> True
      | _ \<Rightarrow> False)"

text \<open>\<^verbatim>\<open>a === b\<close> on numbers: NaN equals nothing, itself included.\<close>

definition js_eq :: "number \<Rightarrow> number \<Rightarrow> bool" where
  "js_eq a b = (a \<noteq> NaN \<and> b \<noteq> NaN \<and> a = b)"

definition js_gt :: "number \<Rightarrow> number \<Rightarrow> bool" where
  "js_gt a b = js_lt b a"

definition js_le :: "number \<Rightarrow> number \<Rightarrow> bool" where
  "js_le a b = (js_lt a b \<or> js_eq a b)"

definition js_ge :: "number \<Rightarrow> number \<Rightarrow> bool" where
  "js_ge a b = js_le b a"

text \<open>\<^verbatim>\<open>a + b\<close>, \<^verbatim>\<open>-a\<close> and \<^verbatim>\<open>a - b\<close>.\<close>

definition js_add :: "number \<Rightarrow> number \<Rightarrow> number" where
  "js_add a b =
     (case (a, b) of
        (Num x, Num y) \<Rightarrow> Num (x + y)
      | (NaN, _) \<Rightarrow> NaN
      | (_, NaN) \<Rightarrow> NaN
      | (PosInf, NegInf) \<Rightarrow> NaN
      | (NegInf, PosInf) \<Rightarrow> NaN
      | (PosInf, _) \<Rightarrow> PosInf
      | (_, PosInf) \<Rightarrow> PosInf
      | (NegInf, _) \<Rightarrow> NegInf
      | (_, NegInf) \<Rightarrow> NegInf)"

definition js_neg :: "number \<Rightarrow> number" where
  "js_neg a =
     (case a of Num x \<Rightarrow> Num (- x) | PosInf \<Rightarrow> NegInf | NegInf \<Rightarrow> PosInf | NaN \<Rightarrow> NaN)"

definition js_sub :: "number \<Rightarrow> number \<Rightarrow> number" where
  "js_sub a b = js_add a (js_neg b)"

text \<open>
  \<^verbatim>\<open>a / c\<close> for a finite divisor \<open>c\<close> greater than 0; the one division of the code is by
  \<^verbatim>\<open>oneDay\<close>.
\<close>

definition js_div_by :: "number \<Rightarrow> real \<Rightarrow> number" where
  "js_div_by a c = (case a of Num x \<Rightarrow> Num (x / c) | other \<Rightarrow> other)"

definition Math_abs :: "number \<Rightarrow> number" where
  "Math_abs a =
     (case a of Num x \<Rightarrow> Num \<bar>x\<bar> | PosInf \<Rightarrow> PosInf | NegInf \<Rightarrow> PosInf | NaN \<Rightarrow> NaN)"

text \<open>
  \<^verbatim>\<open>Math.round\<close> rounds to the nearest integer, a half upwards (\<open>round x = \<lfloor>x + 1/2\<rfloor>\<close>),
  and returns an infinity or NaN as it is.
\<close>

definition Math_round :: "number \<Rightarrow> number" where
  "Math_round a = (case a of Num x \<Rightarrow> Num (real_of_int (round x)) | other \<Rightarrow> other)"

text \<open>A number is truthy unless it is 0 or NaN.\<close>

definition truthy :: "number \<Rightarrow> bool" where
  "truthy a = (case a of Num x \<Rightarrow> x \<noteq> 0 | NaN \<Rightarrow> False | _ \<Rightarrow> True)"

subsection \<open>Records\<close>

record User =
  u_id :: principal
  u_name :: string
  u_email :: string
  u_isActive :: bool
  u_isAdmin :: bool
  u_availableDays :: number
  u_createdAt :: nat64
  u_updatedAt :: "nat64 option"

text \<open>\<^verbatim>\<open>UserPayload\<close>: every field is optional (\<^verbatim>\<open>None\<close> is \<^verbatim>\<open>undefined\<close>).\<close>

record UserPayload =
  up_id :: "principal option"
  up_name :: "string option"
  up_email :: "string option"
  up_isActive :: "bool option"
  up_isAdmin :: "bool option"
  up_availableDays :: "number option"

record PromoteUserPayload =
  pp_id :: principal
  pp_isAdmin :: "bool option"
  pp_isActive :: "bool option"

record CreateOrEditUserPayload =
  cp_name :: string
  cp_email :: string

record Leave =
  l_id :: string
  l_userId :: principal
  l_startDate :: number
  l_endDate :: number
  l_days :: number
  l_status :: string
  l_createdAt :: nat64
  l_updatedAt :: "nat64 option"

record LeavePayload =
  lp_startDate :: number
  lp_endDate :: number

text \<open>
  Modelled from the spec: \<^verbatim>\<open>DEFAULT_AVAILABLE_DAYS\<close> of \<^verbatim>\<open>constants.ts\<close>, a file that
  \<^verbatim>\<open>index.ts\<close> imports and that is not among the sources. The spec has the balance start
  "at a default (21)"; the earlier versions of \<^verbatim>\<open>index.ts\<close> declare the same value inline.
\<close>

definition DEFAULT_AVAILABLE_DAYS :: number where
  "DEFAULT_AVAILABLE_DAYS = Num 21"

text \<open>
  Modelled from the spec: \<^verbatim>\<open>LeaveStatuses\<close> of the same missing file, "the three recognized
  leave statuses" PENDING, APPROVED and REJECTED, each the string of its name as in the
  earlier versions of \<^verbatim>\<open>index.ts\<close>; \<open>LeaveStatuses_values\<close> is
  \<^verbatim>\<open>Object.values(LeaveStatuses)\<close>.
\<close>

definition PENDING :: string where "PENDING = ''PENDING''"
definition APPROVED :: string where "APPROVED = ''APPROVED''"
definition REJECTED :: string where "REJECTED = ''REJECTED''"

definition LeaveStatuses_values :: "string list" where
  "LeaveStatuses_values = [PENDING, APPROVED, REJECTED]"

datatype operation = ADD | SUBTRACT

text \<open>
  Every operation returns \<^verbatim>\<open>Result<T, string>\<close>. The error strings of \<^verbatim>\<open>index.ts\<close> are the
  constructors below; \<open>message\<close> gives the text of each.
\<close>

datatype error =
    UserNotFound principal
  | NoPermission
  | NameEmailRequired
  | IncorrectEmail
  | EmailExists
  | UserUpdateNotFound principal
  | CantEditYourself
  | NameEmailEmpty
  | NotActivated
  | InvalidStatus
  | RequestUserNotFound
  | StartNotBeforeEnd
  | AtLeastOneDay
  | ExceedingAvailableDays
  | NotInCurrentYear
  | Overlaps
  | InvalidLeaveId
  | LeaveUpdateNotFound string
  | AlreadyAccepted
  | LeaveDeleteNotFound string
  | LeaveStatusNotFound string
  | BalanceUpdateFailed principal
  | IdEmpty

fun message :: "error \<Rightarrow> string" where
  "message (UserNotFound i) = ''User with given id='' @ i @ '' not found!''"
| "message NoPermission = ''You do not have the permission for this operation!''"
| "message NameEmailRequired = ''Name and Email data are required! Please enter valid data.''"
| "message IncorrectEmail = ''Incorrect email! Please enter valid email.''"
| "message EmailExists = ''User with given email address exists already!''"
| "message (UserUpdateNotFound i) =
     ''Could not update a user with the given id='' @ i @ ''. User not found!''"
| "message CantEditYourself = ''You can't edit yourself!''"
| "message NameEmailEmpty = ''Name and Email cannot be empty! Please enter valid data.''"
| "message NotActivated =
     ''Your account has not been activated yet! Please contact support for account confirmation.''"
| "message InvalidStatus =
     ''Please enter valid Status! Statuses are - PENDING, APPROVED and REJECTED''"
| "message RequestUserNotFound = ''Could not find the User with the given ID!''"
| "message StartNotBeforeEnd = ''Start date must be before end date!''"
| "message AtLeastOneDay = ''Leave should be atleast one day!''"
| "message ExceedingAvailableDays = ''You are exceeding your available days for leave!''"
| "message NotInCurrentYear = ''Leave period should be in the current calendar year!''"
| "message Overlaps = ''The chosen leave period overlaps with an existing leave!''"
| "message InvalidLeaveId = ''Please enter valid Leave ID!''"
| "message (LeaveUpdateNotFound i) =
     ''Could not update leave with the given id='' @ i @ ''. Leave not found!''"
| "message AlreadyAccepted = ''Leave is already accepted so you can't delete/cancel leave!''"
| "message (LeaveDeleteNotFound i) =
     ''Could not delete a Leave with the given id='' @ i @ ''. Leave not found!''"
| "message (LeaveStatusNotFound i) =
     ''Could not update status of the leave with the given id='' @ i @ ''. Leave not found!''"
| "message (BalanceUpdateFailed i) =
     ''Could not update status of the leave with the given id='' @ i @ ''. Something went wrong!''"
| "message IdEmpty = ''ID cannot be empty! Please enter valid data.''"

type_synonym 'a result = "error + 'a"

abbreviation Ok :: "'a \<Rightarrow> 'a result" where "Ok \<equiv> Inr"
abbreviation Err :: "error \<Rightarrow> 'a result" where "Err \<equiv> Inl"

subsection \<open>The stable maps\<close>

text \<open>
  A \<^verbatim>\<open>StableBTreeMap\<close> is an association list with one entry for each key; \<open>sbm_values\<close>
  lists the values in the order of the list (the order of the keys in the B-tree is not
  modelled).
\<close>

type_synonym ('k, 'v) sbm = "('k \<times> 'v) list"

definition sbm_get :: "'k \<Rightarrow> ('k, 'v) sbm \<Rightarrow> 'v option" where
  "sbm_get k m = map_of m k"

definition sbm_insert :: "'k \<Rightarrow> 'v \<Rightarrow> ('k, 'v) sbm \<Rightarrow> ('k, 'v) sbm" where
  "sbm_insert k v m = AList.update k v m"

definition sbm_remove :: "'k \<Rightarrow> ('k, 'v) sbm \<Rightarrow> 'v option \<times> ('k, 'v) sbm" where
  "sbm_remove k m = (map_of m k, AList.delete k m)"

definition sbm_values :: "('k, 'v) sbm \<Rightarrow> 'v list" where
  "sbm_values m = map snd m"

definition sbm_isEmpty :: "('k, 'v) sbm \<Rightarrow> bool" where
  "sbm_isEmpty m = (m = [])"

record state =
  leaveStorage :: "(string, Leave) sbm"
  userStorage :: "(principal, User) sbm"

text \<open>
  What a call reads from the platform: the caller and the time of the Internet Computer,
  the identifier that \<^verbatim>\<open>uuidv4()\<close> draws, the instant of \<^verbatim>\<open>new Date()\<close> in milliseconds, and
  two library functions: the calendar year of a valid instant given in milliseconds, which
  is what \<^verbatim>\<open>Date.prototype.getFullYear\<close> returns for a valid date, and \<^verbatim>\<open>validate\<close> of the
  uuid package.
\<close>

record env =
  ic_caller :: principal
  ic_time :: nat64
  uuidv4 :: string
  date_now :: real
  getFullYear :: "real \<Rightarrow> int"
  isValidUUID :: "string \<Rightarrow> bool"

section \<open>utils.ts\<close>

definition oneDay :: real where
  "oneDay = 24 * 60 * 60 * 1000"

definition findDiffInDays :: "number \<Rightarrow> number \<Rightarrow> number" where
  "findDiffInDays startDate endDate =
     (let diffDays = Math_round (Math_abs (js_div_by (js_sub endDate startDate) oneDay))
      in if js_eq diffDays (Num 0) then Num 1 else diffDays)"

subsection \<open>The regular expression of isValidEmail\<close>

datatype regex =
    Fail
  | Eps
  | Class "char \<Rightarrow> bool"
  | Alt regex regex
  | Seq regex regex
  | Many regex

fun nullable :: "regex \<Rightarrow> bool" where
  "nullable Fail = False"
| "nullable Eps = True"
| "nullable (Class p) = False"
| "nullable (Alt r s) = (nullable r \<or> nullable s)"
| "nullable (Seq r s) = (nullable r \<and> nullable s)"
| "nullable (Many r) = True"

text \<open>The smart constructors keep the derivatives small; they do not change the language.\<close>

fun alt :: "regex \<Rightarrow> regex \<Rightarrow> regex" where
  "alt Fail s = s"
| "alt r Fail = r"
| "alt r s = Alt r s"

fun seq :: "regex \<Rightarrow> regex \<Rightarrow> regex" where
  "seq Fail s = Fail"
| "seq r Fail = Fail"
| "seq Eps s = s"
| "seq r s = Seq r s"

fun deriv :: "char \<Rightarrow> regex \<Rightarrow> regex" where
  "deriv c Fail = Fail"
| "deriv c Eps = Fail"
| "deriv c (Class p) = (if p c then Eps else Fail)"
| "deriv c (Alt r s) = alt (deriv c r) (deriv c s)"
| "deriv c (Seq r s) =
     (if nullable r then alt (seq (deriv c r) s) (deriv c s) else seq (deriv c r) s)"
| "deriv c (Many r) = seq (deriv c r) (Many r)"

text \<open>\<open>test r s\<close>: the whole of \<open>s\<close> matches \<open>r\<close> (the expression is anchored by \<^verbatim>\<open>^\<close> and \<^verbatim>\<open>$\<close>).\<close>

fun test :: "regex \<Rightarrow> string \<Rightarrow> bool" where
  "test r [] = nullable r"
| "test r (c # cs) = test (deriv c r) cs"

definition lit :: "char \<Rightarrow> regex" where
  "lit c = Class (\<lambda>x. x = c)"

definition many1 :: "regex \<Rightarrow> regex" where
  "many1 r = Seq r (Many r)"

definition opt :: "regex \<Rightarrow> regex" where
  "opt r = Alt r Eps"

text \<open>\<^verbatim>\<open>r{1,3}\<close> and \<^verbatim>\<open>r{2,}\<close>.\<close>

definition rep_1_3 :: "regex \<Rightarrow> regex" where
  "rep_1_3 r = Seq r (Seq (opt r) (opt r))"

definition rep_2_up :: "regex \<Rightarrow> regex" where
  "rep_2_up r = Seq r (Seq r (Many r))"

definition between :: "char \<Rightarrow> char \<Rightarrow> char \<Rightarrow> bool" where
  "between lo hi c = (of_char lo \<le> (of_char c :: nat) \<and> (of_char c :: nat) \<le> of_char hi)"

text \<open>\<^verbatim>\<open>\s\<close> on the code units below U+0100: tab, LF, VT, FF, CR, space and U+00A0.\<close>

definition is_space :: "char \<Rightarrow> bool" where
  "is_space c = ((of_char c :: nat) \<in> {9, 10, 11, 12, 13, 32, 160})"

text \<open>\<^verbatim>\<open>.\<close> matches every character but a line terminator.\<close>

definition any_char :: "char \<Rightarrow> bool" where
  "any_char c = ((of_char c :: nat) \<notin> {10, 13})"

text \<open>
  \<^verbatim>\<open>[^<>()[\]\\.,;:\s@"]\<close>: the backslash is \<open>CHR 0x5C\<close> and the double quote \<open>CHR 0x22\<close>.
\<close>

definition local_char :: "char \<Rightarrow> bool" where
  "local_char c =
     (c \<notin> set ''<>()[].,;:@'' \<and> c \<noteq> CHR 0x5C \<and> c \<noteq> CHR 0x22 \<and> \<not> is_space c)"

definition digit :: "char \<Rightarrow> bool" where
  "digit c = between CHR ''0'' CHR ''9'' c"

definition letter :: "char \<Rightarrow> bool" where
  "letter c = (between CHR ''a'' CHR ''z'' c \<or> between CHR ''A'' CHR ''Z'' c)"

text \<open>\<^verbatim>\<open>[a-zA-Z\-0-9]\<close>\<close>

definition host_char :: "char \<Rightarrow> bool" where
  "host_char c = (letter c \<or> c = CHR ''-'' \<or> digit c)"

text \<open>
  \<^verbatim>\<open>(([^<>()[\]\\.,;:\s@"]+(\.[^<>()[\]\\.,;:\s@"]+)*)|.(".+"))\<close>
\<close>

definition local_part :: regex where
  "local_part =
     Alt (Seq (many1 (Class local_char))
              (Many (Seq (lit CHR ''.'') (many1 (Class local_char)))))
         (Seq (Class any_char)
              (Seq (lit CHR 0x22) (Seq (many1 (Class any_char)) (lit CHR 0x22))))"

text \<open>
  \<^verbatim>\<open>((\[[0-9]{1,3}\.[0-9]{1,3}\.[0-9]{1,3}\.[0-9]{1,3}\])|(([a-zA-Z\-0-9]+\.)+[a-zA-Z]{2,}))\<close>
\<close>

definition domain_part :: regex where
  "domain_part =
     Alt (Seq (lit CHR ''['')
           (Seq (rep_1_3 (Class digit)) (Seq (lit CHR ''.'')
           (Seq (rep_1_3 (Class digit)) (Seq (lit CHR ''.'')
           (Seq (rep_1_3 (Class digit)) (Seq (lit CHR ''.'')
           (Seq (rep_1_3 (Class digit)) (lit CHR '']'')))))))))
         (Seq (many1 (Seq (many1 (Class host_char)) (lit CHR ''.'')))
              (rep_2_up (Class letter)))"

definition email_regex :: regex where
  "email_regex = Seq local_part (Seq (lit CHR ''@'') domain_part)"

text \<open>\<^verbatim>\<open>toLowerCase\<close> on the code units below U+0100.\<close>

definition toLowerCase_char :: "char \<Rightarrow> char" where
  "toLowerCase_char c =
     (let n = (of_char c :: nat)
      in if (65 \<le> n \<and> n \<le> 90) \<or> (192 \<le> n \<and> n \<le> 222 \<and> n \<noteq> 215)
         then char_of (n + 32) else c)"

definition toLowerCase :: "string \<Rightarrow> string" where
  "toLowerCase s = map toLowerCase_char s"

definition isValidEmail :: "string \<Rightarrow> bool" where
  "isValidEmail email = test email_regex (toLowerCase email)"

section \<open>index.ts\<close>

subsection \<open>What the language does\<close>

text \<open>
  \<^verbatim>\<open>===\<close> and \<^verbatim>\<open>!==\<close> on two objects compare references, not values. Wherever \<^verbatim>\<open>index.ts\<close>
  compares two \<^verbatim>\<open>Principal\<close>s this way, one is the object that \<^verbatim>\<open>ic.caller()\<close> has just made
  and the other was decoded from the arguments of the call or from a stable map: two
  different objects, whatever principals they stand for. (A stable map finds its keys by
  their encoding, and \<^verbatim>\<open>getMyLeaveRequests\<close> compares the texts of the principals; both go by
  value.)
\<close>

definition same_object :: "principal \<Rightarrow> principal \<Rightarrow> bool" where
  "same_object decoded called = False"

text \<open>
  \<^verbatim>\<open>new Date(v)\<close> is a valid date when \<open>v\<close> is finite and at most 8.64e15 in absolute value,
  and then stands for the instant \<open>v\<close> with its fraction cut off; \<^verbatim>\<open>getFullYear()\<close> of any other
  date is NaN.
\<close>

definition Date_getFullYear :: "env \<Rightarrow> number \<Rightarrow> number" where
  "Date_getFullYear e v =
     (case v of
        Num t \<Rightarrow>
          if \<bar>t\<bar> \<le> 8640000000000000
          then Num (real_of_int
                 (getFullYear e (real_of_int (if 0 \<le> t then \<lfloor>t\<rfloor> else \<lceil>t\<rceil>))))
          else NaN
      | _ \<Rightarrow> NaN)"

text \<open>\<^verbatim>\<open>new Date().getFullYear()\<close>: the year of the instant of the call.\<close>

definition currentYear :: "env \<Rightarrow> number" where
  "currentYear e = Num (real_of_int (getFullYear e (date_now e)))"

subsection \<open>Helpers\<close>

definition isAdmin :: "env \<Rightarrow> state \<Rightarrow> bool" where
  "isAdmin e s =
     (case sbm_get (ic_caller e) (userStorage s) of
        None \<Rightarrow> False
      | Some user \<Rightarrow> u_isAdmin user)"

definition isActive :: "env \<Rightarrow> state \<Rightarrow> bool" where
  "isActive e s =
     (case sbm_get (ic_caller e) (userStorage s) of
        None \<Rightarrow> False
      | Some user \<Rightarrow> u_isActive user)"

text \<open>
  \<^verbatim>\<open>updateUserParams\<close> copies a field of the payload only when the field is truthy: a number
  other than 0 and NaN, the boolean \<^verbatim>\<open>true\<close>, a string that is not empty. The user is written back
  under \<^verbatim>\<open>user.id\<close>, with \<^verbatim>\<open>updatedAt\<close> set, also when no field was copied.
\<close>

definition updateUserParams :: "env \<Rightarrow> state \<Rightarrow> UserPayload \<Rightarrow> User result \<times> state" where
  "updateUserParams e s payload =
     (case up_id payload of
        None \<Rightarrow> (Err IdEmpty, s)
      | Some pid \<Rightarrow>
         (case sbm_get pid (userStorage s) of
            None \<Rightarrow> (Err (UserUpdateNotFound pid), s)
          | Some user \<Rightarrow>
             let u0 = user\<lparr>u_updatedAt := Some (ic_time e)\<rparr>;
                 u1 = (case up_availableDays payload of
                         Some d \<Rightarrow> if truthy d then u0\<lparr>u_availableDays := d\<rparr> else u0
                       | None \<Rightarrow> u0);
                 u2 = (if up_isActive payload = Some True then u1\<lparr>u_isActive := True\<rparr> else u1);
                 u3 = (if up_isAdmin payload = Some True then u2\<lparr>u_isAdmin := True\<rparr> else u2);
                 u4 = (case up_name payload of
                         Some n \<Rightarrow> if n \<noteq> [] then u3\<lparr>u_name := n\<rparr> else u3
                       | None \<Rightarrow> u3);
                 u5 = (case up_email payload of
                         Some em \<Rightarrow>
                           if em \<noteq> [] then
                             (if \<not> isValidEmail em then Err IncorrectEmail
                              else if find (\<lambda>user. u_email user = em) (sbm_values (userStorage s)) \<noteq> None
                              then Err EmailExists
                              else Ok (u4\<lparr>u_email := em\<rparr>))
                           else Ok u4
                       | None \<Rightarrow> Ok u4)
             in (case u5 of
                   Inl err \<Rightarrow> (Err err, s)
                 | Inr updatedUser \<Rightarrow>
                     (Ok updatedUser,
                      s\<lparr>userStorage := sbm_insert (u_id user) updatedUser (userStorage s)\<rparr>))))"

text \<open>
  \<^verbatim>\<open>updateUsersAvailableDays\<close> gives up when the user is missing or the stored balance is
  falsy, that is 0 or NaN.
\<close>

definition updateUsersAvailableDays ::
  "env \<Rightarrow> state \<Rightarrow> principal \<Rightarrow> number \<Rightarrow> operation \<Rightarrow> User result \<times> state" where
  "updateUsersAvailableDays e s userId leaveDays operation =
     (case sbm_get userId (userStorage s) of
        None \<Rightarrow> (Err (BalanceUpdateFailed userId), s)
      | Some user \<Rightarrow>
          if \<not> truthy (u_availableDays user) then (Err (BalanceUpdateFailed userId), s)
          else
            let availableDays =
                  (case operation of
                     ADD \<Rightarrow> js_add (u_availableDays user) leaveDays
                   | SUBTRACT \<Rightarrow> js_sub (u_availableDays user) leaveDays)
            in updateUserParams e s
                 \<lparr>up_id = Some userId, up_name = None, up_email = None, up_isActive = None,
                  up_isAdmin = None, up_availableDays = Some availableDays\<rparr>)"

subsection \<open>User management\<close>

definition getUser :: "state \<Rightarrow> principal \<Rightarrow> User result" where
  "getUser s i =
     (case sbm_get i (userStorage s) of
        Some userData \<Rightarrow> Ok userData
      | None \<Rightarrow> Err (UserNotFound i))"

definition getUsers :: "env \<Rightarrow> state \<Rightarrow> User list result" where
  "getUsers e s =
     (if \<not> isAdmin e s then Err NoPermission else Ok (sbm_values (userStorage s)))"

definition createUser ::
  "env \<Rightarrow> state \<Rightarrow> CreateOrEditUserPayload \<Rightarrow> User result \<times> state" where
  "createUser e s payload =
     (if cp_name payload = [] \<or> cp_email payload = [] then (Err NameEmailRequired, s)
      else if \<not> isValidEmail (cp_email payload) then (Err IncorrectEmail, s)
      else if find (\<lambda>user. u_email user = cp_email payload) (sbm_values (userStorage s)) \<noteq> None
      then (Err EmailExists, s)
      else
        let user =
              \<lparr>u_id = ic_caller e, u_name = cp_name payload, u_email = cp_email payload,
               u_isActive = sbm_isEmpty (userStorage s), u_isAdmin = sbm_isEmpty (userStorage s),
               u_availableDays = DEFAULT_AVAILABLE_DAYS, u_createdAt = ic_time e,
               u_updatedAt = Some (ic_time e)\<rparr>
        in (Ok user, s\<lparr>userStorage := sbm_insert (u_id user) user (userStorage s)\<rparr>))"

text \<open>
  In \<^verbatim>\<open>promoteUser\<close> the payload and its \<^verbatim>\<open>id\<close> are always there (the Candid interface
  requires them), so of the second test only the lookup remains. The third test,
  \<^verbatim>\<open>payload.id === ic.caller()\<close>, compares two objects.
\<close>

definition promoteUser :: "env \<Rightarrow> state \<Rightarrow> PromoteUserPayload \<Rightarrow> User result \<times> state" where
  "promoteUser e s payload =
     (if \<not> isAdmin e s then (Err NoPermission, s)
      else if sbm_get (pp_id payload) (userStorage s) = None
      then (Err (UserUpdateNotFound (pp_id payload)), s)
      else if same_object (pp_id payload) (ic_caller e) then (Err CantEditYourself, s)
      else
        let p1 = (if pp_isAdmin payload = Some True
                  then payload\<lparr>pp_isActive := Some True\<rparr> else payload);
            p2 = (if pp_isActive p1 = Some False
                  then p1\<lparr>pp_isAdmin := Some False\<rparr> else p1)
        in updateUserParams e s
             \<lparr>up_id = Some (pp_id p2), up_name = None, up_email = None,
              up_isActive = pp_isActive p2, up_isAdmin = pp_isAdmin p2,
              up_availableDays = None\<rparr>)"

definition updateUser ::
  "env \<Rightarrow> state \<Rightarrow> CreateOrEditUserPayload \<Rightarrow> User result \<times> state" where
  "updateUser e s payload =
     (if cp_name payload = [] \<and> cp_email payload = [] then (Err NameEmailEmpty, s)
      else updateUserParams e s
             \<lparr>up_id = Some (ic_caller e), up_name = Some (cp_name payload),
              up_email = Some (cp_email payload), up_isActive = None, up_isAdmin = None,
              up_availableDays = None\<rparr>)"

subsection \<open>Leave management\<close>

definition getMyLeaveRequests :: "env \<Rightarrow> state \<Rightarrow> Leave list result" where
  "getMyLeaveRequests e s =
     (if \<not> isActive e s then Err NotActivated
      else Ok (filter (\<lambda>x. l_userId x = ic_caller e) (sbm_values (leaveStorage s))))"

definition getMyLeaveRequestsByStatus :: "env \<Rightarrow> state \<Rightarrow> string \<Rightarrow> Leave list result" where
  "getMyLeaveRequestsByStatus e s status =
     (if \<not> isActive e s then Err NotActivated
      else if status = [] \<or> (status \<noteq> [] \<and> status \<notin> set LeaveStatuses_values)
      then Err InvalidStatus
      else Ok (filter (\<lambda>x. l_userId x = ic_caller e) (sbm_values (leaveStorage s))))"

text \<open>
  \<^verbatim>\<open>Array.prototype.forEach\<close> calls the function on every element and drops what it
  returns; the function that \<^verbatim>\<open>requestLeave\<close> passes has no effect of its own. The list it
  would run over is filtered with \<^verbatim>\<open>leave.userId === userId\<close>, a comparison of two objects.
\<close>

definition forEach :: "('a \<Rightarrow> 'b) \<Rightarrow> 'a list \<Rightarrow> unit" where
  "forEach f xs = (let dropped = map f xs in ())"

definition requestLeave :: "env \<Rightarrow> state \<Rightarrow> LeavePayload \<Rightarrow> Leave result \<times> state" where
  "requestLeave e s payload =
     (let userId = ic_caller e in
      case sbm_get userId (userStorage s) of
        None \<Rightarrow> (Err RequestUserNotFound, s)
      | Some user \<Rightarrow>
          if \<not> isActive e s then (Err NotActivated, s)
          else
            let startDate = lp_startDate payload; endDate = lp_endDate payload in
            if js_ge startDate endDate then (Err StartNotBeforeEnd, s)
            else
              let thisYear = currentYear e;
                  diffDays = findDiffInDays (lp_startDate payload) (lp_endDate payload)
              in
              if js_eq diffDays (Num 0) then (Err AtLeastOneDay, s)
              else if js_lt (u_availableDays user) diffDays then (Err ExceedingAvailableDays, s)
              else if js_gt (Date_getFullYear e startDate) thisYear
                      \<or> js_gt (Date_getFullYear e endDate) thisYear
                      \<or> js_lt (Date_getFullYear e startDate) thisYear
                      \<or> js_lt (Date_getFullYear e endDate) thisYear
              then (Err NotInCurrentYear, s)
              else
                let leaves =
                      filter (\<lambda>leave. same_object (l_userId leave) userId)
                        (sbm_values (leaveStorage s));
                    ignored =
                      (if leaves \<noteq> [] then
                         forEach
                           (\<lambda>currentLeave.
                              if (js_le (l_startDate currentLeave) startDate
                                    \<and> js_le startDate (l_endDate currentLeave))
                                 \<or> (js_le (l_startDate currentLeave) endDate
                                    \<and> js_le endDate (l_endDate currentLeave))
                                 \<or> (js_ge (l_startDate currentLeave) startDate
                                    \<and> js_ge endDate (l_endDate currentLeave))
                              then Some (Err Overlaps :: Leave result) else None)
                           leaves
                       else ());
                    leave =
                      \<lparr>l_id = uuidv4 e, l_userId = userId, l_startDate = lp_startDate payload,
                       l_endDate = lp_endDate payload, l_days = diffDays, l_status = PENDING,
                       l_createdAt = ic_time e, l_updatedAt = None\<rparr>;
                    s1 = s\<lparr>leaveStorage := sbm_insert (l_id leave) leave (leaveStorage s)\<rparr>;
                    s2 = snd (updateUsersAvailableDays e s1 (l_userId leave) (l_days leave) SUBTRACT)
                in (Ok leave, s2))"

definition updateLeave ::
  "env \<Rightarrow> state \<Rightarrow> string \<Rightarrow> LeavePayload \<Rightarrow> Leave result \<times> state" where
  "updateLeave e s i payload =
     (if \<not> isValidUUID e i then (Err InvalidLeaveId, s)
      else
        case sbm_get i (leaveStorage s) of
          Some leave \<Rightarrow>
            if \<not> same_object (l_userId leave) (ic_caller e) then (Err NoPermission, s)
            else
              let diffDays = findDiffInDays (lp_startDate payload) (lp_endDate payload) in
              if js_le diffDays (Num 0) then (Err AtLeastOneDay, s)
              else
                let updatedLeave =
                      leave\<lparr>l_startDate := lp_startDate payload, l_endDate := lp_endDate payload,
                            l_days := diffDays, l_updatedAt := Some (ic_time e)\<rparr>
                in (Ok updatedLeave,
                    s\<lparr>leaveStorage := sbm_insert (l_id leave) updatedLeave (leaveStorage s)\<rparr>)
        | None \<Rightarrow> (Err (LeaveUpdateNotFound i), s))"

definition deleteLeave :: "env \<Rightarrow> state \<Rightarrow> string \<Rightarrow> Leave result \<times> state" where
  "deleteLeave e s i =
     (if \<not> isValidUUID e i then (Err InvalidLeaveId, s)
      else
        case sbm_get i (leaveStorage s) of
          None \<Rightarrow> (Err AlreadyAccepted, s)
        | Some leave \<Rightarrow>
            if l_status leave = ''ACCEPTED'' then (Err AlreadyAccepted, s)
            else
              (case sbm_remove i (leaveStorage s) of
                 (Some deletedLeave, m) \<Rightarrow>
                   let s1 = s\<lparr>leaveStorage := m\<rparr>;
                       s2 = (if l_status deletedLeave = PENDING
                             then snd (updateUsersAvailableDays e s1 (l_userId deletedLeave)
                                         (l_days deletedLeave) ADD)
                             else s1)
                   in (Ok deletedLeave, s2)
               | (None, m) \<Rightarrow> (Err (LeaveDeleteNotFound i), s\<lparr>leaveStorage := m\<rparr>)))"

definition updateLeaveStatus ::
  "env \<Rightarrow> state \<Rightarrow> string \<Rightarrow> string \<Rightarrow> Leave result \<times> state" where
  "updateLeaveStatus e s i status =
     (if \<not> isAdmin e s then (Err NoPermission, s)
      else if \<not> isValidUUID e i then (Err InvalidLeaveId, s)
      else
        case sbm_get i (leaveStorage s) of
          Some leave \<Rightarrow>
            let updatedLeave = leave\<lparr>l_status := status, l_updatedAt := Some (ic_time e)\<rparr>;
                s1 = s\<lparr>leaveStorage := sbm_insert (l_id leave) updatedLeave (leaveStorage s)\<rparr>;
                s2 = (if status = REJECTED
                      then snd (updateUsersAvailableDays e s1 (l_userId leave) (l_days leave) ADD)
                      else snd (updateUsersAvailableDays e s1 (l_userId leave) (l_days leave)
                                  SUBTRACT))
            in (Ok updatedLeave, s2)
        | None \<Rightarrow> (Err (LeaveStatusNotFound i), s))"

subsection \<open>The service\<close>

text \<open>The public operations of the canister (\<^verbatim>\<open>index.did\<close>) and what they reply.\<close>

datatype call =
    GetUser principal
  | GetUsers
  | CreateUser CreateOrEditUserPayload
  | PromoteUser PromoteUserPayload
  | UpdateUser CreateOrEditUserPayload
  | GetMyLeaveRequests
  | GetMyLeaveRequestsByStatus string
  | RequestLeave LeavePayload
  | UpdateLeave string LeavePayload
  | DeleteLeave string
  | UpdateLeaveStatus string string

datatype reply =
    AUser User
  | ALeave Leave
  | Users "User list"
  | Leaves "Leave list"

definition reply_with :: "('a \<Rightarrow> reply) \<Rightarrow> 'a result \<times> state \<Rightarrow> reply result \<times> state" where
  "reply_with f r = (map_sum (\<lambda>err. err) f (fst r), snd r)"

fun service :: "env \<Rightarrow> state \<Rightarrow> call \<Rightarrow> reply result \<times> state" where
  "service e s (GetUser i) = reply_with AUser (getUser s i, s)"
| "service e s GetUsers = reply_with Users (getUsers e s, s)"
| "service e s (CreateUser payload) = reply_with AUser (createUser e s payload)"
| "service e s (PromoteUser payload) = reply_with AUser (promoteUser e s payload)"
| "service e s (UpdateUser payload) = reply_with AUser (updateUser e s payload)"
| "service e s GetMyLeaveRequests = reply_with Leaves (getMyLeaveRequests e s, s)"
| "service e s (GetMyLeaveRequestsByStatus status) =
     reply_with Leaves (getMyLeaveRequestsByStatus e s status, s)"
| "service e s (RequestLeave payload) = reply_with ALeave (requestLeave e s payload)"
| "service e s (UpdateLeave i payload) = reply_with ALeave (updateLeave e s i payload)"
| "service e s (DeleteLeave i) = reply_with ALeave (deleteLeave e s i)"
| "service e s (UpdateLeaveStatus i status) = reply_with ALeave (updateLeaveStatus e s i status)"

subsection \<open>The bounds of the stable maps\<close>




datatype entry = LeaveEntry Leave | UserEntry User


text \<open>
  What a call hands to \<^verbatim>\<open>insert\<close>, in the order of the calls. \<^verbatim>\<open>updateUserParams\<close> is the only
  place where a user is rewritten: it inserts the user that it returns, and inserts
  nothing when it returns an error, and so does \<^verbatim>\<open>updateUsersAvailableDays\<close> on top of it.
\<close>

definition balance_inserts ::
  "env \<Rightarrow> state \<Rightarrow> principal \<Rightarrow> number \<Rightarrow> operation \<Rightarrow> entry list" where
  "balance_inserts e s userId leaveDays operation =
     (case fst (updateUsersAvailableDays e s userId leaveDays operation) of
        Inr user \<Rightarrow> [UserEntry user]
      | Inl err \<Rightarrow> [])"

text \<open>
  \<^verbatim>\<open>createUser\<close>, \<^verbatim>\<open>promoteUser\<close>, \<^verbatim>\<open>updateUser\<close> and \<^verbatim>\<open>updateLeave\<close> insert what they return.
  \<^verbatim>\<open>requestLeave\<close> and \<^verbatim>\<open>updateLeaveStatus\<close> insert the leave they return and then adjust the
  balance; \<^verbatim>\<open>deleteLeave\<close> removes the leave and adjusts the balance when the leave was
  PENDING. An operation that returns an error has inserted nothing, and the queries never
  insert.
\<close>

fun inserts :: "env \<Rightarrow> state \<Rightarrow> call \<Rightarrow> entry list" where
  "inserts e s (GetUser i) = []"
| "inserts e s GetUsers = []"
| "inserts e s (CreateUser payload) =
     (case fst (createUser e s payload) of Inr user \<Rightarrow> [UserEntry user] | Inl err \<Rightarrow> [])"
| "inserts e s (PromoteUser payload) =
     (case fst (promoteUser e s payload) of Inr user \<Rightarrow> [UserEntry user] | Inl err \<Rightarrow> [])"
| "inserts e s (UpdateUser payload) =
     (case fst (updateUser e s payload) of Inr user \<Rightarrow> [UserEntry user] | Inl err \<Rightarrow> [])"
| "inserts e s GetMyLeaveRequests = []"
| "inserts e s (GetMyLeaveRequestsByStatus status) = []"
| "inserts e s (RequestLeave payload) =
     (case fst (requestLeave e s payload) of
        Inr leave \<Rightarrow>
          LeaveEntry leave
            # balance_inserts e
                (s\<lparr>leaveStorage := sbm_insert (l_id leave) leave (leaveStorage s)\<rparr>)
                (l_userId leave) (l_days leave) SUBTRACT
      | Inl err \<Rightarrow> [])"
| "inserts e s (UpdateLeave i payload) =
     (case fst (updateLeave e s i payload) of
        Inr leave \<Rightarrow> [LeaveEntry leave]
      | Inl err \<Rightarrow> [])"
| "inserts e s (DeleteLeave i) =
     (case fst (deleteLeave e s i) of
        Inr deletedLeave \<Rightarrow>
          if l_status deletedLeave = PENDING
          then balance_inserts e (s\<lparr>leaveStorage := snd (sbm_remove i (leaveStorage s))\<rparr>)
                 (l_userId deletedLeave) (l_days deletedLeave) ADD
          else []
      | Inl err \<Rightarrow> [])"
| "inserts e s (UpdateLeaveStatus i status) =
     (case fst (updateLeaveStatus e s i status) of
        Inr updatedLeave \<Rightarrow>
          LeaveEntry updatedLeave
            # balance_inserts e
                (s\<lparr>leaveStorage :=
                     sbm_insert (l_id updatedLeave) updatedLeave (leaveStorage s)\<rparr>)
                (l_userId updatedLeave) (l_days updatedLeave)
                (if status = REJECTED then ADD else SUBTRACT)
      | Inl err \<Rightarrow> [])"



section \<open>Observations and example states\<close>

text \<open>The balance that the user directory holds for a principal.\<close>

definition availableDaysOf :: "state \<Rightarrow> principal \<Rightarrow> number option" where
  "availableDaysOf s uid = map_option u_availableDays (sbm_get uid (userStorage s))"

text \<open>Every user is stored under its own \<open>u_id\<close>.\<close>

definition users_keyed :: "state \<Rightarrow> bool" where
  "users_keyed s = list_all (\<lambda>(k, u). u_id u = k) (userStorage s)"

text \<open>
  An example calendar: the instants from 2023-01-01T00:00Z (1672531200000 ms) up to
  2024-01-01T00:00Z (1704067200000 ms) are in the year 2023.
\<close>

definition year_2023 :: "real \<Rightarrow> int" where
  "year_2023 t = (if 1672531200000 \<le> t \<and> t < 1704067200000 then 2023 else 0)"

definition uuid_1 :: string where "uuid_1 = ''11111111-1111-4111-8111-111111111111''"
definition uuid_2 :: string where "uuid_2 = ''22222222-2222-4222-8222-222222222222''"
definition uuid_3 :: string where "uuid_3 = ''33333333-3333-4333-8333-333333333333''"

text \<open>
  A call on 2023-03-28 by the principal \<open>who\<close>; \<^verbatim>\<open>uuidv4()\<close> draws \<open>uuid_2\<close>, and the
  strings of 36 characters count as uuids.
\<close>

definition env_of :: "principal \<Rightarrow> env" where
  "env_of who =
     \<lparr>ic_caller = who, ic_time = 200, uuidv4 = uuid_2, date_now = 1680000000000,
      getFullYear = year_2023, isValidUUID = (\<lambda>i. length i = 36)\<rparr>"

text \<open>Alice is the first user, hence admin and active; Bob was made admin later.\<close>

definition alice :: User where
  "alice =
     \<lparr>u_id = ''alice'', u_name = ''Alice'', u_email = ''alice@ooo.io'', u_isActive = True,
      u_isAdmin = True, u_availableDays = Num 17, u_createdAt = 100, u_updatedAt = Some 150\<rparr>"

definition bob :: User where
  "bob =
     \<lparr>u_id = ''bob'', u_name = ''Bob'', u_email = ''bob@ooo.io'', u_isActive = True,
      u_isAdmin = True, u_availableDays = Num 21, u_createdAt = 120, u_updatedAt = Some 130\<rparr>"

text \<open>Alice's leave from 2023-01-01 to 2023-01-05, four days, and a later one of two days.\<close>

definition leave_1 :: Leave where
  "leave_1 =
     \<lparr>l_id = uuid_1, l_userId = ''alice'', l_startDate = Num 1672531200000,
      l_endDate = Num 1672876800000, l_days = Num 4, l_status = PENDING, l_createdAt = 150,
      l_updatedAt = None\<rparr>"

definition leave_3 :: Leave where
  "leave_3 =
     \<lparr>l_id = uuid_3, l_userId = ''alice'', l_startDate = Num 1675209600000,
      l_endDate = Num 1675382400000, l_days = Num 2, l_status = APPROVED, l_createdAt = 160,
      l_updatedAt = Some 170\<rparr>"

text \<open>
  The state after Alice, with 21 days, requested \<open>leave_1\<close>; \<open>office_with a st\<close> is the
  same state with Alice's balance \<open>a\<close> and the leave in status \<open>st\<close>.
\<close>

definition office_with :: "number \<Rightarrow> string \<Rightarrow> state" where
  "office_with a st =
     \<lparr>leaveStorage = [(uuid_1, leave_1\<lparr>l_status := st\<rparr>)],
      userStorage = [(''alice'', alice\<lparr>u_availableDays := a\<rparr>), (''bob'', bob)]\<rparr>"

definition office :: state where
  "office = office_with (Num 17) PENDING"

definition office_two_leaves :: state where
  "office_two_leaves =
     \<lparr>leaveStorage = [(uuid_1, leave_1), (uuid_3, leave_3)],
      userStorage = [(''alice'', alice\<lparr>u_availableDays := Num 15\<rparr>), (''bob'', bob)]\<rparr>"

definition empty_office :: state where
  "empty_office = \<lparr>leaveStorage = [], userStorage = []\<rparr>"

text \<open>
  The office after \<^verbatim>\<open>requestLeave({startDate: NaN, endDate: NaN})\<close> by Alice: every test of
  \<open>requestLeave\<close> is false on NaN, and the leave is stored with NaN days.
\<close>

definition leave_NaN :: Leave where
  "leave_NaN =
     \<lparr>l_id = uuid_2, l_userId = ''alice'', l_startDate = NaN, l_endDate = NaN, l_days = NaN,
      l_status = PENDING, l_createdAt = 200, l_updatedAt = None\<rparr>"

definition office_NaN :: state where
  "office_NaN =
     \<lparr>leaveStorage = [(uuid_1, leave_1), (uuid_2, leave_NaN)],
      userStorage = [(''alice'', alice\<lparr>u_updatedAt := Some 200\<rparr>), (''bob'', bob)]\<rparr>"



section \<open>Numbers\<close>

lemma js_lt_irrefl: "\<not> js_lt a a"
  by (cases a) (simp_all add: js_lt_def)

lemma js_lt_not_ge: "js_lt a b \<Longrightarrow> \<not> js_ge a b"
  by (cases a; cases b) (auto simp: js_lt_def js_ge_def js_le_def js_eq_def)

lemma js_le_not_lt: "js_le a b \<Longrightarrow> \<not> js_lt b a"
  by (cases a; cases b) (auto simp: js_lt_def js_le_def js_eq_def)

lemma not_truthy_sub_self: "\<not> truthy (js_sub a a)"
  by (cases a) (simp_all add: truthy_def js_sub_def js_add_def js_neg_def)

lemma not_truthy_cases: "\<not> truthy a \<longleftrightarrow> a = Num 0 \<or> a = NaN"
  by (cases a) (simp_all add: truthy_def)

text \<open>
  The day count of two finite instants is the span in days, rounded to the nearest whole
  day (a half upwards), and at least 1. No day count is 0.
\<close>

lemma findDiffInDays_Num:
  "findDiffInDays (Num a) (Num b) = Num (max 1 (real_of_int (round (\<bar>b - a\<bar> / oneDay))))"
proof -
  have pos: "0 < oneDay" by (simp add: oneDay_def)
  have eq: "\<bar>oneDay\<bar> = oneDay"
    using pos by simp
  have "0 \<le> \<bar>b - a\<bar> / oneDay" using pos by simp
  then have "0 \<le> round (\<bar>b - a\<bar> / oneDay)"
    by (simp add: round_def)
  then show ?thesis
    by (auto simp: findDiffInDays_def Let_def js_sub_def js_add_def js_neg_def js_div_by_def
        Math_abs_def Math_round_def js_eq_def eq max_def)
qed

lemma findDiffInDays_not_0: "\<not> js_eq (findDiffInDays a b) (Num 0)"
  by (simp add: findDiffInDays_def Let_def js_eq_def)

lemma findDiffInDays_examples:
  "findDiffInDays (Num 0) (Num 129600000) = Num 2"
  "findDiffInDays (Num 0) (Num 3600000) = Num 1"
  "findDiffInDays (Num 0) (Num 129599999) = Num 1"
  "findDiffInDays (Num 1672876800000) (Num 1672531200000) = Num 4"
  "findDiffInDays NaN NaN = NaN"
  "findDiffInDays (Num 0) PosInf = PosInf"
  by (simp_all add: findDiffInDays_def Let_def js_sub_def js_add_def js_neg_def js_div_by_def
      Math_abs_def Math_round_def js_eq_def oneDay_def round_def)

section \<open>The stable maps and the balance helper\<close>

lemma sbm_get_insert:
  "sbm_get k' (sbm_insert k v m) = (if k' = k then Some v else sbm_get k' m)"
  by (simp add: sbm_get_def sbm_insert_def update_conv')

lemma sbm_remove_fst: "fst (sbm_remove k m) = sbm_get k m"
  by (simp add: sbm_remove_def sbm_get_def)

lemma sbm_get_remove:
  "sbm_get k' (snd (sbm_remove k m)) = (if k' = k then None else sbm_get k' m)"
  by (simp add: sbm_remove_def sbm_get_def delete_conv')

lemma updateUserParams_leaveStorage:
  "leaveStorage (snd (updateUserParams e s payload)) = leaveStorage s"
  by (simp add: updateUserParams_def Let_def split: option.splits sum.splits)

lemma updateUsersAvailableDays_leaveStorage:
  "leaveStorage (snd (updateUsersAvailableDays e s uid d opn)) = leaveStorage s"
  by (simp add: updateUsersAvailableDays_def Let_def updateUserParams_leaveStorage
      split: option.splits)

text \<open>
  What the balance helper does to the user it is called for, when that user is stored
  under its own \<open>u_id\<close>: nothing at a falsy balance; only the time stamp when the new
  balance would be falsy; the new balance otherwise.
\<close>

lemma updateUsersAvailableDays_user:
  assumes "sbm_get uid (userStorage s) = Some u" and "u_id u = uid"
  shows "sbm_get uid (userStorage (snd (updateUsersAvailableDays e s uid d opn))) =
           Some (let a = u_availableDays u;
                     b = (case opn of ADD \<Rightarrow> js_add a d | SUBTRACT \<Rightarrow> js_sub a d)
                 in if \<not> truthy a then u
                    else if \<not> truthy b then u\<lparr>u_updatedAt := Some (ic_time e)\<rparr>
                    else u\<lparr>u_updatedAt := Some (ic_time e), u_availableDays := b\<rparr>)"
  using assms
  by (simp add: updateUsersAvailableDays_def updateUserParams_def Let_def sbm_get_insert
      split: operation.splits)

lemma updateUsersAvailableDays_balance:
  assumes "sbm_get uid (userStorage s) = Some u" and "u_id u = uid"
  shows "availableDaysOf (snd (updateUsersAvailableDays e s uid d opn)) uid =
           Some (let a = u_availableDays u;
                     b = (case opn of ADD \<Rightarrow> js_add a d | SUBTRACT \<Rightarrow> js_sub a d)
                 in if \<not> truthy a \<or> \<not> truthy b then a else b)"
  by (simp add: availableDaysOf_def updateUsersAvailableDays_user [OF assms] Let_def)

text \<open>
  The operations keep every user stored under its own \<open>u_id\<close>, so this holds in every
  state that the service reaches from the empty one.
\<close>

lemma list_all_update:
  "list_all P m \<Longrightarrow> P (k, v) \<Longrightarrow> list_all P (AList.update k v m)"
  by (induction m) auto

lemma users_keyed_insert:
  "users_keyed s \<Longrightarrow> u_id v = k \<Longrightarrow>
   users_keyed (s\<lparr>userStorage := sbm_insert k v (userStorage s)\<rparr>)"
  by (simp add: users_keyed_def sbm_insert_def list_all_update)

lemma users_keyed_leaveStorage [simp]:
  "users_keyed (s\<lparr>leaveStorage := m\<rparr>) = users_keyed s"
  by (simp add: users_keyed_def)

lemma updateUserParams_keyed:
  "users_keyed s \<Longrightarrow> users_keyed (snd (updateUserParams e s p))"
  by (auto simp: updateUserParams_def Let_def intro!: users_keyed_insert
      split: option.splits sum.splits if_splits)

lemma updateUsersAvailableDays_keyed:
  "users_keyed s \<Longrightarrow> users_keyed (snd (updateUsersAvailableDays e s uid d opn))"
  by (simp add: updateUsersAvailableDays_def Let_def updateUserParams_keyed split: option.splits)

lemma createUser_keyed: "users_keyed s \<Longrightarrow> users_keyed (snd (createUser e s p))"
  by (simp add: createUser_def Let_def users_keyed_insert)

lemma promoteUser_keyed: "users_keyed s \<Longrightarrow> users_keyed (snd (promoteUser e s p))"
  by (simp add: promoteUser_def Let_def updateUserParams_keyed)

lemma updateUser_keyed: "users_keyed s \<Longrightarrow> users_keyed (snd (updateUser e s p))"
  by (simp add: updateUser_def updateUserParams_keyed)

lemma requestLeave_keyed: "users_keyed s \<Longrightarrow> users_keyed (snd (requestLeave e s p))"
  by (simp add: requestLeave_def Let_def updateUsersAvailableDays_keyed split: option.splits)

lemma updateLeave_keyed: "users_keyed s \<Longrightarrow> users_keyed (snd (updateLeave e s i p))"
  by (simp add: updateLeave_def Let_def split: option.splits)

lemma deleteLeave_keyed: "users_keyed s \<Longrightarrow> users_keyed (snd (deleteLeave e s i))"
  by (simp add: deleteLeave_def Let_def updateUsersAvailableDays_keyed
      split: option.splits prod.splits)

lemma updateLeaveStatus_keyed:
  "users_keyed s \<Longrightarrow> users_keyed (snd (updateLeaveStatus e s i st))"
  by (simp add: updateLeaveStatus_def Let_def updateUsersAvailableDays_keyed
      split: option.splits)

lemma service_keyed: "users_keyed s \<Longrightarrow> users_keyed (snd (service e s c))"
  by (cases c)
    (simp_all add: reply_with_def createUser_keyed promoteUser_keyed updateUser_keyed
      requestLeave_keyed updateLeave_keyed deleteLeave_keyed updateLeaveStatus_keyed)

lemma users_keyed_get:
  "users_keyed s \<Longrightarrow> sbm_get k (userStorage s) = Some u \<Longrightarrow> u_id u = k"
  by (auto simp: users_keyed_def sbm_get_def list_all_iff dest: map_of_SomeD)

lemma users_keyed_empty: "users_keyed empty_office"
  by (simp add: users_keyed_def empty_office_def)

lemmas ex_defs =
  office_def office_with_def office_two_leaves_def empty_office_def office_NaN_def alice_def
  bob_def leave_1_def leave_3_def leave_NaN_def env_of_def uuid_1_def uuid_2_def uuid_3_def
  year_2023_def PENDING_def APPROVED_def REJECTED_def

lemmas js_defs =
  js_lt_def js_eq_def js_gt_def js_le_def js_ge_def js_add_def js_neg_def js_sub_def
  js_div_by_def Math_abs_def Math_round_def truthy_def Date_getFullYear_def currentYear_def

section \<open>Status updates and the balance\<close>

text \<open>
  A leave can be stored with NaN days: on \<^verbatim>\<open>requestLeave({startDate: NaN, endDate: NaN})\<close>
  every test is false. Rejecting such a leave leaves the balance of 17 as it is, since
  17 + NaN is NaN, which \<open>updateUserParams\<close> does not copy.
\<close>

lemma updateLeaveStatus_NaN_days:
  "requestLeave (env_of ''alice'') office \<lparr>lp_startDate = NaN, lp_endDate = NaN\<rparr>
     = (Ok leave_NaN, office_NaN)
   \<and> availableDaysOf office_NaN ''alice'' = Some (Num 17)
   \<and> availableDaysOf (snd (updateLeaveStatus (env_of ''alice'') office_NaN uuid_2 REJECTED))
        ''alice'' = Some (Num 17)"
  by (simp add: requestLeave_def updateLeaveStatus_def updateUsersAvailableDays_def
      updateUserParams_def availableDaysOf_def isActive_def isAdmin_def sbm_get_def
      sbm_insert_def sbm_values_def same_object_def findDiffInDays_def Let_def js_defs ex_defs)




section \<open>Overlapping requests\<close>

text \<open>No request is ever answered with the overlap error.\<close>

lemma requestLeave_never_Overlaps: "fst (requestLeave e s p) \<noteq> Err Overlaps"
  by (simp add: requestLeave_def Let_def split: option.splits)

text \<open>
  C2 (the code at the failing input). Alice holds a leave from 2023-01-01 to 2023-01-05
  and requests 2023-01-03 to 2023-01-06, whose start lies within the stored leave. The
  request is accepted: a second leave of 3 days is stored and her balance goes from 17 to
  14. The \<^verbatim>\<open>return\<close> of the overlap error is inside the function given to \<^verbatim>\<open>forEach\<close>.
\<close>

theorem requestLeave_overlap_accepted:
  "sbm_get uuid_1 (leaveStorage office) = Some leave_1
   \<and> l_userId leave_1 = ''alice''
   \<and> js_le (l_startDate leave_1) (Num 1672704000000)
   \<and> js_le (Num 1672704000000) (l_endDate leave_1)
   \<and> requestLeave (env_of ''alice'') office
        \<lparr>lp_startDate = Num 1672704000000, lp_endDate = Num 1672963200000\<rparr>
      = (Ok \<lparr>l_id = uuid_2, l_userId = ''alice'', l_startDate = Num 1672704000000,
             l_endDate = Num 1672963200000, l_days = Num 3, l_status = PENDING,
             l_createdAt = 200, l_updatedAt = None\<rparr>,
         \<lparr>leaveStorage =
            [(uuid_1, leave_1),
             (uuid_2, \<lparr>l_id = uuid_2, l_userId = ''alice'', l_startDate = Num 1672704000000,
                       l_endDate = Num 1672963200000, l_days = Num 3, l_status = PENDING,
                       l_createdAt = 200, l_updatedAt = None\<rparr>)],
          userStorage =
            [(''alice'', alice\<lparr>u_updatedAt := Some 200, u_availableDays := Num 14\<rparr>),
             (''bob'', bob)]\<rparr>)"
  by (simp add: requestLeave_def updateUsersAvailableDays_def updateUserParams_def
      isActive_def sbm_get_def sbm_insert_def sbm_values_def forEach_def same_object_def
      findDiffInDays_def oneDay_def Let_def js_defs ex_defs)

section \<open>Deleting a leave\<close>

text \<open>
  A stored leave is deleted whenever its status is not the string \<^verbatim>\<open>"ACCEPTED"\<close>; a PENDING
  leave is refunded to its owner (falsy balances apart).
\<close>

lemma deleteLeave_unless_ACCEPTED:
  assumes "isValidUUID e i" and "sbm_get i (leaveStorage s) = Some leave"
    and "l_status leave \<noteq> ''ACCEPTED''"
  shows "fst (deleteLeave e s i) = Ok leave
       \<and> sbm_get i (leaveStorage (snd (deleteLeave e s i))) = None"
  using assms
  by (simp add: deleteLeave_def Let_def sbm_remove_def sbm_get_def delete_conv'
      updateUsersAvailableDays_leaveStorage)

lemma deleteLeave_PENDING_refunds:
  assumes "isValidUUID e i" and "sbm_get i (leaveStorage s) = Some leave"
    and "l_status leave = PENDING"
    and "sbm_get (l_userId leave) (userStorage s) = Some owner"
    and "u_id owner = l_userId leave"
    and "truthy (u_availableDays owner)"
    and "truthy (js_add (u_availableDays owner) (l_days leave))"
  shows "availableDaysOf (snd (deleteLeave e s i)) (l_userId leave)
           = Some (js_add (u_availableDays owner) (l_days leave))"
proof -
  let ?s1 = "s\<lparr>leaveStorage := AList.delete i (leaveStorage s)\<rparr>"
  have owner1: "sbm_get (l_userId leave) (userStorage ?s1) = Some owner"
    using assms(4) by simp
  have run: "snd (deleteLeave e s i)
      = snd (updateUsersAvailableDays e ?s1 (l_userId leave) (l_days leave) ADD)"
    using assms(1,2,3)
    by (simp add: deleteLeave_def Let_def sbm_remove_def sbm_get_def PENDING_def)
  show ?thesis
    unfolding run
    using updateUsersAvailableDays_balance [OF owner1 assms(5), of e "l_days leave" ADD]
      assms(6,7)
    by simp
qed

text \<open>
  C3 (the code at the failing input). Alice's leave has the status APPROVED, which is not
  PENDING; \<open>deleteLeave\<close> succeeds and removes it (without a refund). The guard compares
  the status with \<^verbatim>\<open>"ACCEPTED"\<close>, which is none of the three statuses.
\<close>

theorem deleteLeave_approved_deleted:
  "deleteLeave (env_of ''alice'') (office_with (Num 17) APPROVED) uuid_1
     = (Ok (leave_1\<lparr>l_status := APPROVED\<rparr>),
        \<lparr>leaveStorage = [],
         userStorage = [(''alice'', alice), (''bob'', bob)]\<rparr>)"
  by (simp add: deleteLeave_def sbm_get_def sbm_remove_def Let_def ex_defs)

section \<open>Requesting a leave\<close>

text \<open>
  C4. Let the caller be a stored user. If the computed day count exceeds the user's
  \<open>availableDays\<close>, then \<open>requestLeave\<close> fails and the state (the users with their
  balances, and the leaves) is as before; for an active user and a start before the end,
  the error is "You are exceeding your available days for leave!", the spec's
  ValidationError for an insufficient balance. Conversely, when the day count is at most
  the balance, equality included, \<open>requestLeave\<close> does not fail with that error.
\<close>

theorem requestLeave_insufficient_balance:
  assumes "sbm_get (ic_caller e) (userStorage s) = Some user"
  shows "(js_lt (u_availableDays user) (findDiffInDays (lp_startDate p) (lp_endDate p)) \<longrightarrow>
            (\<exists>err. requestLeave e s p = (Err err, s))
            \<and> (u_isActive user \<and> js_lt (lp_startDate p) (lp_endDate p) \<longrightarrow>
                 requestLeave e s p = (Err ExceedingAvailableDays, s)))
       \<and> (js_le (findDiffInDays (lp_startDate p) (lp_endDate p)) (u_availableDays user) \<longrightarrow>
            fst (requestLeave e s p) \<noteq> Err ExceedingAvailableDays)"
  using assms findDiffInDays_not_0 [of "lp_startDate p" "lp_endDate p"]
    js_lt_not_ge [of "lp_startDate p" "lp_endDate p"]
    js_le_not_lt [of "findDiffInDays (lp_startDate p) (lp_endDate p)" "u_availableDays user"]
  by (auto simp: requestLeave_def isActive_def Let_def)

text \<open>
  With a balance of 2, Alice's request for three days (2023-02-01 to 2023-02-04) fails
  and changes nothing; with a balance of exactly 3 it is accepted.
\<close>

theorem requestLeave_insufficient_balance_witness:
  "requestLeave (env_of ''alice'') (office_with (Num 2) PENDING)
      \<lparr>lp_startDate = Num 1675209600000, lp_endDate = Num 1675468800000\<rparr>
     = (Err ExceedingAvailableDays, office_with (Num 2) PENDING)
   \<and> (\<exists>l. fst (requestLeave (env_of ''alice'') (office_with (Num 3) PENDING)
      \<lparr>lp_startDate = Num 1675209600000, lp_endDate = Num 1675468800000\<rparr>) = Ok l)"
proof -
  have d: "findDiffInDays (Num 1675209600000) (Num 1675468800000) = Num 3"
    by (simp add: findDiffInDays_Num oneDay_def)
  have a: "sbm_get (ic_caller (env_of ''alice'')) (userStorage (office_with (Num 2) PENDING))
             = Some (alice\<lparr>u_availableDays := Num 2\<rparr>)"
    by (simp add: sbm_get_def ex_defs)
  have ok: "\<exists>l. fst (requestLeave (env_of ''alice'') (office_with (Num 3) PENDING)
      \<lparr>lp_startDate = Num 1675209600000, lp_endDate = Num 1675468800000\<rparr>) = Ok l"
    by (simp add: requestLeave_def isActive_def sbm_get_def d Let_def js_defs ex_defs)
  show ?thesis
    using requestLeave_insufficient_balance [OF a,
        of "\<lparr>lp_startDate = Num 1675209600000, lp_endDate = Num 1675468800000\<rparr>"] d ok
    by (simp add: alice_def js_lt_def)
qed

text \<open>
  C5. For an active caller, a start before the end, both endpoints in the current year
  and a sufficient balance, \<open>requestLeave\<close> returns a leave whose \<open>days\<close> is
  \<open>round (|endDate - startDate| / oneDay)\<close>, at least 1. The payload has the two dates
  and nothing else, so \<open>days\<close> is computed from them and never supplied by the caller.
  (A date with a year is a finite number.)
\<close>

theorem requestLeave_days:
  assumes "sbm_get (ic_caller e) (userStorage s) = Some user"
    and "u_isActive user"
    and "lp_startDate p = Num a" and "lp_endDate p = Num b" and "a < b"
    and "Date_getFullYear e (lp_startDate p) = currentYear e"
    and "Date_getFullYear e (lp_endDate p) = currentYear e"
    and "js_le (Num (max 1 (real_of_int (round (\<bar>b - a\<bar> / oneDay))))) (u_availableDays user)"
  shows "\<exists>leave. fst (requestLeave e s p) = Ok leave
           \<and> l_days leave = Num (max 1 (real_of_int (round (\<bar>b - a\<bar> / oneDay))))
           \<and> l_startDate leave = lp_startDate p \<and> l_endDate leave = lp_endDate p
           \<and> l_status leave = PENDING \<and> l_userId leave = ic_caller e"
proof -
  let ?d = "findDiffInDays (lp_startDate p) (lp_endDate p)"
  have dmax: "?d = Num (max 1 (real_of_int (round (\<bar>b - a\<bar> / oneDay))))"
    unfolding assms(3,4) by (rule findDiffInDays_Num)
  have nz: "\<not> js_eq ?d (Num 0)"
    by (rule findDiffInDays_not_0)
  have enough: "\<not> js_lt (u_availableDays user) ?d"
    using assms(8) js_le_not_lt unfolding dmax by blast
  have order: "\<not> js_ge (lp_startDate p) (lp_endDate p)"
    using assms(5) by (simp add: assms(3,4) js_ge_def js_le_def js_lt_def js_eq_def)
  have year: "\<not> js_gt (currentYear e) (currentYear e)" "\<not> js_lt (currentYear e) (currentYear e)"
    by (simp_all add: js_gt_def js_lt_irrefl)
  have run: "fst (requestLeave e s p) =
      Ok \<lparr>l_id = uuidv4 e, l_userId = ic_caller e, l_startDate = lp_startDate p,
          l_endDate = lp_endDate p, l_days = ?d, l_status = PENDING,
          l_createdAt = ic_time e, l_updatedAt = None\<rparr>"
    using assms(1,2,6,7) nz enough order year
    by (simp add: requestLeave_def isActive_def Let_def)
  show ?thesis
    unfolding run using dmax by simp
qed

text \<open>Alice's request for 2023-02-01 to 2023-02-04 is stored with 3 days.\<close>

theorem requestLeave_days_witness:
  "\<exists>leave. fst (requestLeave (env_of ''alice'') office
       \<lparr>lp_startDate = Num 1675209600000, lp_endDate = Num 1675468800000\<rparr>) = Ok leave
     \<and> l_days leave = Num 3"
proof -
  let ?p = "\<lparr>lp_startDate = Num 1675209600000, lp_endDate = Num 1675468800000\<rparr>"
  have r: "round (\<bar>1675468800000 - 1675209600000\<bar> / oneDay) = 3"
    by (simp add: oneDay_def)
  have a: "sbm_get (ic_caller (env_of ''alice'')) (userStorage office) = Some alice"
    by (simp add: sbm_get_def ex_defs)
  have b: "u_isActive alice" by (simp add: alice_def)
  have p1: "lp_startDate ?p = Num 1675209600000" and p2: "lp_endDate ?p = Num 1675468800000"
    by simp_all
  have c: "(1675209600000 :: real) < 1675468800000" by simp
  have y1: "Date_getFullYear (env_of ''alice'') (lp_startDate ?p) = currentYear (env_of ''alice'')"
    by (simp add: js_defs ex_defs)
  have y2: "Date_getFullYear (env_of ''alice'') (lp_endDate ?p) = currentYear (env_of ''alice'')"
    by (simp add: js_defs ex_defs)
  have f: "js_le (Num (max 1 (real_of_int
              (round (\<bar>1675468800000 - 1675209600000\<bar> / oneDay))))) (u_availableDays alice)"
    unfolding r by (simp add: alice_def js_defs)
  show ?thesis
    using requestLeave_days [OF a b p1 p2 c y1 y2 f] unfolding r by auto
qed

section \<open>Creating and promoting users\<close>

text \<open>
  C6. A user that \<open>createUser\<close> returns is active and admin when the user directory was
  empty, and neither active nor admin when it was not; the user starts with 21 available
  days and is the record stored for the caller.
\<close>

theorem createUser_flags:
  assumes "fst (createUser e s p) = Ok user"
  shows "(sbm_isEmpty (userStorage s) \<longrightarrow> u_isActive user \<and> u_isAdmin user)
       \<and> (\<not> sbm_isEmpty (userStorage s) \<longrightarrow> \<not> u_isActive user \<and> \<not> u_isAdmin user)
       \<and> u_availableDays user = Num 21
       \<and> sbm_get (ic_caller e) (userStorage (snd (createUser e s p))) = Some user"
  using assms
  by (auto simp: createUser_def Let_def DEFAULT_AVAILABLE_DAYS_def sbm_get_insert
      split: if_splits)

text \<open>
  Alice registers in the empty office; Carol registers in the office of Alice and Bob.
\<close>

theorem createUser_flags_witness:
  "(\<exists>u. fst (createUser (env_of ''alice'') empty_office
            \<lparr>cp_name = ''Alice'', cp_email = ''alice@ooo.io''\<rparr>) = Ok u
         \<and> sbm_isEmpty (userStorage empty_office)
         \<and> u_isActive u \<and> u_isAdmin u \<and> u_availableDays u = Num 21)
   \<and> (\<exists>u. fst (createUser (env_of ''carol'') office
            \<lparr>cp_name = ''Carol'', cp_email = ''carol@ooo.io''\<rparr>) = Ok u
         \<and> \<not> sbm_isEmpty (userStorage office)
         \<and> \<not> u_isActive u \<and> \<not> u_isAdmin u \<and> u_availableDays u = Num 21)"
proof -
  have v1: "isValidEmail ''alice@ooo.io''" by code_simp
  have v2: "isValidEmail ''carol@ooo.io''" by code_simp
  obtain u1 where u1: "fst (createUser (env_of ''alice'') empty_office
            \<lparr>cp_name = ''Alice'', cp_email = ''alice@ooo.io''\<rparr>) = Ok u1"
    by (simp add: createUser_def v1 Let_def sbm_values_def empty_office_def)
  obtain u2 where u2: "fst (createUser (env_of ''carol'') office
            \<lparr>cp_name = ''Carol'', cp_email = ''carol@ooo.io''\<rparr>) = Ok u2"
    by (simp add: createUser_def v2 Let_def sbm_values_def ex_defs)
  have e1: "sbm_isEmpty (userStorage empty_office)"
    by (simp add: sbm_isEmpty_def empty_office_def)
  have e2: "\<not> sbm_isEmpty (userStorage office)"
    by (simp add: sbm_isEmpty_def ex_defs)
  show ?thesis
    using createUser_flags [OF u1] createUser_flags [OF u2] u1 u2 e1 e2 by simp
qed

text \<open>
  Promoting a stored user with \<^verbatim>\<open>isAdmin = true\<close> makes the stored user admin and active.
  The caller is never refused for being the target: \<^verbatim>\<open>payload.id === ic.caller()\<close> compares
  two objects.
\<close>

lemma promoteUser_admin_implies_active:
  assumes "isAdmin e s"
    and "sbm_get (pp_id p) (userStorage s) = Some target"
    and "u_id target = pp_id p"
    and "pp_isAdmin p = Some True"
  shows "fst (promoteUser e s p)
           = Ok (target\<lparr>u_updatedAt := Some (ic_time e), u_isActive := True, u_isAdmin := True\<rparr>)
       \<and> sbm_get (pp_id p) (userStorage (snd (promoteUser e s p)))
           = Some (target\<lparr>u_updatedAt := Some (ic_time e), u_isActive := True, u_isAdmin := True\<rparr>)"
  using assms
  by (simp add: promoteUser_def updateUserParams_def same_object_def Let_def sbm_get_insert)

lemma promoteUser_never_CantEditYourself:
  "fst (promoteUser e s p) \<noteq> Err CantEditYourself"
  by (auto simp: promoteUser_def updateUserParams_def same_object_def Let_def
      split: option.splits if_splits)

text \<open>
  No call of \<open>promoteUser\<close> takes a flag away from the target: whatever the payload, a
  target that was admin is admin afterwards, and one that was active is active.
\<close>

lemma promoteUser_flags_never_cleared:
  assumes "sbm_get (pp_id p) (userStorage s) = Some target"
    and "u_id target = pp_id p"
    and "fst (promoteUser e s p) = Ok u'"
  shows "(u_isAdmin target \<longrightarrow> u_isAdmin u') \<and> (u_isActive target \<longrightarrow> u_isActive u')
       \<and> sbm_get (pp_id p) (userStorage (snd (promoteUser e s p))) = Some u'"
  using assms
  by (auto simp: promoteUser_def updateUserParams_def Let_def sbm_get_insert
      split: if_splits)

text \<open>
  C7 (the code at the failing input). Alice, an admin, deactivates Bob, who is admin and
  active: \<^verbatim>\<open>promoteUser({id: bob, isAdmin: false, isActive: false})\<close>. The call succeeds and
  Bob remains admin and active; only his \<open>updatedAt\<close> changes. \<open>promoteUser\<close> does set
  \<^verbatim>\<open>payload.isAdmin = false\<close>, but \<open>updateUserParams\<close> copies a flag only when it is
  truthy, so \<^verbatim>\<open>false\<close> is never stored.
\<close>

theorem promoteUser_deactivate_keeps_admin:
  "isAdmin (env_of ''alice'') office
   \<and> sbm_get ''bob'' (userStorage office) = Some bob
   \<and> u_isAdmin bob \<and> u_isActive bob
   \<and> promoteUser (env_of ''alice'') office
        \<lparr>pp_id = ''bob'', pp_isAdmin = Some False, pp_isActive = Some False\<rparr>
      = (Ok (bob\<lparr>u_updatedAt := Some 200\<rparr>),
         office\<lparr>userStorage := [(''alice'', alice), (''bob'', bob\<lparr>u_updatedAt := Some 200\<rparr>)]\<rparr>)
   \<and> u_isAdmin (bob\<lparr>u_updatedAt := Some 200\<rparr>)"
  by (simp add: promoteUser_def updateUserParams_def isAdmin_def sbm_get_def sbm_insert_def
      same_object_def Let_def ex_defs)

section \<open>Listing one's leaves by status\<close>

text \<open>
  A status outside the three is refused; with one of the three, the reply is that of
  \<open>getMyLeaveRequests\<close>, whatever the status.
\<close>

lemma getMyLeaveRequestsByStatus_invalid:
  "isActive e s \<Longrightarrow> status \<notin> {PENDING, APPROVED, REJECTED} \<Longrightarrow>
   getMyLeaveRequestsByStatus e s status = Err InvalidStatus"
  by (simp add: getMyLeaveRequestsByStatus_def LeaveStatuses_values_def)

lemma getMyLeaveRequestsByStatus_valid:
  "status \<in> {PENDING, APPROVED, REJECTED} \<Longrightarrow>
   getMyLeaveRequestsByStatus e s status = getMyLeaveRequests e s"
  by (auto simp: getMyLeaveRequestsByStatus_def getMyLeaveRequests_def
      LeaveStatuses_values_def PENDING_def APPROVED_def REJECTED_def)

text \<open>
  C8 (the code at the failing input). Alice has a PENDING and an APPROVED leave; asked for
  her PENDING leaves, \<open>getMyLeaveRequestsByStatus\<close> returns both. The status is checked
  against the three statuses and then not used in the filter.
\<close>

theorem getMyLeaveRequestsByStatus_ignores_status:
  "isActive (env_of ''alice'') office_two_leaves
   \<and> getMyLeaveRequestsByStatus (env_of ''alice'') office_two_leaves PENDING
       = Ok [leave_1, leave_3]
   \<and> l_status leave_3 = APPROVED \<and> APPROVED \<noteq> PENDING"
  by (simp add: getMyLeaveRequestsByStatus_def isActive_def sbm_get_def sbm_values_def
      LeaveStatuses_values_def ex_defs)

section \<open>Errors, traps and the state\<close>

text \<open>
  \<open>updateLeave\<close> refuses every stored leave, its owner included:
  \<^verbatim>\<open>leave.userId !== ic.caller()\<close> compares two objects. So it never writes.
\<close>

lemma updateLeave_refused:
  "snd (updateLeave e s i p) = s \<and> (\<forall>leave. fst (updateLeave e s i p) \<noteq> Ok leave)"
  by (simp add: updateLeave_def same_object_def split: option.splits)

lemma updateLeave_stored:
  "isValidUUID e i \<Longrightarrow> sbm_get i (leaveStorage s) = Some leave \<Longrightarrow>
   updateLeave e s i p = (Err NoPermission, s)"
  by (simp add: updateLeave_def same_object_def)

text \<open>
  Each operation either returns an error with the state it was given, or returns a value
  with the state in which exactly the inserts that \<open>inserts\<close> lists for it were made.
\<close>

lemma updateUserParams_cases:
  "(\<exists>err. updateUserParams e s p = (Err err, s))
   \<or> (\<exists>v. updateUserParams e s p
            = (Ok v, s\<lparr>userStorage := sbm_insert (u_id v) v (userStorage s)\<rparr>))"
  by (simp add: updateUserParams_def Let_def split: option.splits sum.splits)

lemma updateUsersAvailableDays_cases:
  "(\<exists>err. updateUsersAvailableDays e s uid d opn = (Err err, s))
   \<or> (\<exists>v. updateUsersAvailableDays e s uid d opn
            = (Ok v, s\<lparr>userStorage := sbm_insert (u_id v) v (userStorage s)\<rparr>))"
  by (simp add: updateUsersAvailableDays_def Let_def updateUserParams_cases
      split: option.splits)

lemma createUser_cases:
  "(\<exists>err. createUser e s p = (Err err, s))
   \<or> (\<exists>v. createUser e s p = (Ok v, s\<lparr>userStorage := sbm_insert (u_id v) v (userStorage s)\<rparr>))"
  by (simp add: createUser_def Let_def)

lemma promoteUser_cases:
  "(\<exists>err. promoteUser e s p = (Err err, s))
   \<or> (\<exists>v. promoteUser e s p = (Ok v, s\<lparr>userStorage := sbm_insert (u_id v) v (userStorage s)\<rparr>))"
  by (simp add: promoteUser_def Let_def updateUserParams_cases)

lemma updateUser_cases:
  "(\<exists>err. updateUser e s p = (Err err, s))
   \<or> (\<exists>v. updateUser e s p = (Ok v, s\<lparr>userStorage := sbm_insert (u_id v) v (userStorage s)\<rparr>))"
  by (simp add: updateUser_def updateUserParams_cases)

lemma requestLeave_cases:
  "(\<exists>err. requestLeave e s p = (Err err, s))
   \<or> (\<exists>leave. requestLeave e s p
        = (Ok leave,
           snd (updateUsersAvailableDays e
                  (s\<lparr>leaveStorage := sbm_insert (l_id leave) leave (leaveStorage s)\<rparr>)
                  (l_userId leave) (l_days leave) SUBTRACT)))"
  by (simp add: requestLeave_def Let_def split: option.splits)

lemma deleteLeave_cases:
  "(\<exists>err. deleteLeave e s i = (Err err, s))
   \<or> (\<exists>leave. deleteLeave e s i
        = (Ok leave,
           if l_status leave = PENDING
           then snd (updateUsersAvailableDays e
                       (s\<lparr>leaveStorage := snd (sbm_remove i (leaveStorage s))\<rparr>)
                       (l_userId leave) (l_days leave) ADD)
           else s\<lparr>leaveStorage := snd (sbm_remove i (leaveStorage s))\<rparr>))"
  by (auto simp: deleteLeave_def Let_def sbm_remove_def sbm_get_def split: option.splits)

lemma updateLeaveStatus_cases:
  "(\<exists>err. updateLeaveStatus e s i st = (Err err, s))
   \<or> (\<exists>leave. updateLeaveStatus e s i st
        = (Ok leave,
           snd (updateUsersAvailableDays e
                  (s\<lparr>leaveStorage := sbm_insert (l_id leave) leave (leaveStorage s)\<rparr>)
                  (l_userId leave) (l_days leave) (if st = REJECTED then ADD else SUBTRACT))))"
  by (simp add: updateLeaveStatus_def Let_def split: option.splits)

text \<open>An operation that returns an error returns the state it was given.\<close>

lemma updateUserParams_error:
  "updateUserParams e s p = (Err err, s') \<Longrightarrow> s' = s"
  using updateUserParams_cases [of e s p] by auto

lemma updateUsersAvailableDays_Err:
  "fst (updateUsersAvailableDays e s uid d opn) = Err err \<Longrightarrow>
   snd (updateUsersAvailableDays e s uid d opn) = s"
  using updateUsersAvailableDays_cases [of e s uid d opn] by auto

lemma createUser_error: "createUser e s p = (Err err, s') \<Longrightarrow> s' = s"
  using createUser_cases [of e s p] by auto

lemma promoteUser_error: "promoteUser e s p = (Err err, s') \<Longrightarrow> s' = s"
  using promoteUser_cases [of e s p] by auto

lemma updateUser_error: "updateUser e s p = (Err err, s') \<Longrightarrow> s' = s"
  using updateUser_cases [of e s p] by auto

lemma requestLeave_error: "requestLeave e s p = (Err err, s') \<Longrightarrow> s' = s"
  using requestLeave_cases [of e s p] by auto


lemma deleteLeave_error: "deleteLeave e s i = (Err err, s') \<Longrightarrow> s' = s"
  using deleteLeave_cases [of e s i] by auto

lemma updateLeaveStatus_error: "updateLeaveStatus e s i st = (Err err, s') \<Longrightarrow> s' = s"
  using updateLeaveStatus_cases [of e s i st] by auto

lemma Err_state:
  assumes "\<And>err s'. r = (Err err, s') \<Longrightarrow> s' = s" and "fst r = Err err"
  shows "snd r = s"
  using assms by (cases r) auto

text \<open>An operation that returns a value has made the inserts of \<open>inserts\<close>.\<close>

lemma updateUsersAvailableDays_Ok:
  "fst (updateUsersAvailableDays e s uid d opn) = Ok v \<Longrightarrow>
   snd (updateUsersAvailableDays e s uid d opn)
     = s\<lparr>userStorage := sbm_insert (u_id v) v (userStorage s)\<rparr>"
  using updateUsersAvailableDays_cases [of e s uid d opn] by auto

lemma createUser_Ok:
  "fst (createUser e s p) = Ok v \<Longrightarrow>
   snd (createUser e s p) = s\<lparr>userStorage := sbm_insert (u_id v) v (userStorage s)\<rparr>"
  using createUser_cases [of e s p] by auto

lemma promoteUser_Ok:
  "fst (promoteUser e s p) = Ok v \<Longrightarrow>
   snd (promoteUser e s p) = s\<lparr>userStorage := sbm_insert (u_id v) v (userStorage s)\<rparr>"
  using promoteUser_cases [of e s p] by auto

lemma updateUser_Ok:
  "fst (updateUser e s p) = Ok v \<Longrightarrow>
   snd (updateUser e s p) = s\<lparr>userStorage := sbm_insert (u_id v) v (userStorage s)\<rparr>"
  using updateUser_cases [of e s p] by auto

lemma requestLeave_Ok:
  "fst (requestLeave e s p) = Ok leave \<Longrightarrow>
   snd (requestLeave e s p)
     = snd (updateUsersAvailableDays e
             (s\<lparr>leaveStorage := sbm_insert (l_id leave) leave (leaveStorage s)\<rparr>)
             (l_userId leave) (l_days leave) SUBTRACT)"
  using requestLeave_cases [of e s p] by auto

lemma deleteLeave_Ok:
  "fst (deleteLeave e s i) = Ok leave \<Longrightarrow>
   snd (deleteLeave e s i)
     = (if l_status leave = PENDING
        then snd (updateUsersAvailableDays e
                   (s\<lparr>leaveStorage := snd (sbm_remove i (leaveStorage s))\<rparr>)
                   (l_userId leave) (l_days leave) ADD)
        else s\<lparr>leaveStorage := snd (sbm_remove i (leaveStorage s))\<rparr>)"
  using deleteLeave_cases [of e s i] by auto

lemma updateLeaveStatus_Ok:
  "fst (updateLeaveStatus e s i st) = Ok leave \<Longrightarrow>
   snd (updateLeaveStatus e s i st)
     = snd (updateUsersAvailableDays e
             (s\<lparr>leaveStorage := sbm_insert (l_id leave) leave (leaveStorage s)\<rparr>)
             (l_userId leave) (l_days leave) (if st = REJECTED then ADD else SUBTRACT))"
  using updateLeaveStatus_cases [of e s i st] by auto




text \<open>
  So \<open>inserts\<close> misses no write: an entry of a map after the call that was not there
  before is one of the inserts of the call, under the key that \<open>fits\<close> measures.
\<close>

lemma set_update_subset: "set (AList.update k v m) \<subseteq> insert (k, v) (set m)"
  by (induction m) auto

lemma set_delete_subset: "set (AList.delete k m) \<subseteq> set m"
  by (induction m) auto

lemma insert_cover:
  "(k, v) \<in> set (sbm_insert k' v' m) \<Longrightarrow> (k, v) \<in> set m \<or> (v = v' \<and> k = k')"
  using set_update_subset [of k' v' m] by (auto simp: sbm_insert_def)

lemma remove_leave_cover:
  "(k, v) \<in> set (snd (sbm_remove i m)) \<Longrightarrow> (k, v) \<in> set m"
  using set_delete_subset [of i m] by (auto simp: sbm_remove_def)

lemma balance_cover:
  assumes "(k, v) \<in> set (userStorage (snd (updateUsersAvailableDays e s uid d opn)))"
  shows "(k, v) \<in> set (userStorage s)
       \<or> (UserEntry v \<in> set (balance_inserts e s uid d opn) \<and> k = u_id v)"
proof (cases "fst (updateUsersAvailableDays e s uid d opn)")
  case (Inl err)
  with assms show ?thesis by (simp add: updateUsersAvailableDays_Err)
next
  case (Inr u)
  with assms insert_cover [of k v "u_id u" u "userStorage s"] show ?thesis
    by (auto simp: updateUsersAvailableDays_Ok balance_inserts_def)
qed

lemma inserts_cover_users:
  assumes "(k, v) \<in> set (userStorage (snd (service e s c)))"
  shows "(k, v) \<in> set (userStorage s) \<or> (UserEntry v \<in> set (inserts e s c) \<and> k = u_id v)"
proof (cases c)
  case (CreateUser p)
  show ?thesis
  proof (cases "fst (createUser e s p)")
    case (Inl err)
    with assms CreateUser show ?thesis
      by (simp add: reply_with_def Err_state [OF createUser_error])
  next
    case (Inr u)
    with assms CreateUser insert_cover [of k v "u_id u" u "userStorage s"] show ?thesis
      by (auto simp: reply_with_def createUser_Ok)
  qed
next
  case (PromoteUser p)
  show ?thesis
  proof (cases "fst (promoteUser e s p)")
    case (Inl err)
    with assms PromoteUser show ?thesis
      by (simp add: reply_with_def Err_state [OF promoteUser_error])
  next
    case (Inr u)
    with assms PromoteUser insert_cover [of k v "u_id u" u "userStorage s"] show ?thesis
      by (auto simp: reply_with_def promoteUser_Ok)
  qed
next
  case (UpdateUser p)
  show ?thesis
  proof (cases "fst (updateUser e s p)")
    case (Inl err)
    with assms UpdateUser show ?thesis
      by (simp add: reply_with_def Err_state [OF updateUser_error])
  next
    case (Inr u)
    with assms UpdateUser insert_cover [of k v "u_id u" u "userStorage s"] show ?thesis
      by (auto simp: reply_with_def updateUser_Ok)
  qed
next
  case (RequestLeave p)
  show ?thesis
  proof (cases "fst (requestLeave e s p)")
    case (Inl err)
    with assms RequestLeave show ?thesis
      by (simp add: reply_with_def Err_state [OF requestLeave_error])
  next
    case (Inr leave)
    with assms RequestLeave
      balance_cover [of k v e "s\<lparr>leaveStorage := sbm_insert (l_id leave) leave (leaveStorage s)\<rparr>"
        "l_userId leave" "l_days leave" SUBTRACT]
    show ?thesis
      by (auto simp: reply_with_def requestLeave_Ok)
  qed
next
  case (UpdateLeave i p)
  with assms show ?thesis
    by (simp add: reply_with_def updateLeave_refused)
next
  case (DeleteLeave i)
  show ?thesis
  proof (cases "fst (deleteLeave e s i)")
    case (Inl err)
    with assms DeleteLeave show ?thesis
      by (simp add: reply_with_def Err_state [OF deleteLeave_error])
  next
    case (Inr leave)
    with assms DeleteLeave
      balance_cover [of k v e "s\<lparr>leaveStorage := snd (sbm_remove i (leaveStorage s))\<rparr>"
        "l_userId leave" "l_days leave" ADD]
    show ?thesis
      by (auto simp: reply_with_def deleteLeave_Ok split: if_splits)
  qed
next
  case (UpdateLeaveStatus i st)
  show ?thesis
  proof (cases "fst (updateLeaveStatus e s i st)")
    case (Inl err)
    with assms UpdateLeaveStatus show ?thesis
      by (simp add: reply_with_def Err_state [OF updateLeaveStatus_error])
  next
    case (Inr leave)
    with assms UpdateLeaveStatus
      balance_cover [of k v e "s\<lparr>leaveStorage := sbm_insert (l_id leave) leave (leaveStorage s)\<rparr>"
        "l_userId leave" "l_days leave" "if st = REJECTED then ADD else SUBTRACT"]
    show ?thesis
      by (auto simp: reply_with_def updateLeaveStatus_Ok)
  qed
qed (use assms in \<open>simp_all add: reply_with_def\<close>)

lemma inserts_cover_leaves:
  assumes "(k, v) \<in> set (leaveStorage (snd (service e s c)))"
  shows "(k, v) \<in> set (leaveStorage s) \<or> (LeaveEntry v \<in> set (inserts e s c) \<and> k = l_id v)"
proof (cases c)
  case (CreateUser p)
  with assms show ?thesis
    by (cases "fst (createUser e s p)")
      (simp_all add: reply_with_def Err_state [OF createUser_error] createUser_Ok)
next
  case (PromoteUser p)
  with assms show ?thesis
    by (cases "fst (promoteUser e s p)")
      (simp_all add: reply_with_def Err_state [OF promoteUser_error] promoteUser_Ok)
next
  case (UpdateUser p)
  with assms show ?thesis
    by (cases "fst (updateUser e s p)")
      (simp_all add: reply_with_def Err_state [OF updateUser_error] updateUser_Ok)
next
  case (RequestLeave p)
  show ?thesis
  proof (cases "fst (requestLeave e s p)")
    case (Inl err)
    with assms RequestLeave show ?thesis
      by (simp add: reply_with_def Err_state [OF requestLeave_error])
  next
    case (Inr leave)
    with assms RequestLeave insert_cover [of k v "l_id leave" leave "leaveStorage s"] show ?thesis
      by (auto simp: reply_with_def requestLeave_Ok updateUsersAvailableDays_leaveStorage)
  qed
next
  case (UpdateLeave i p)
  with assms show ?thesis
    by (simp add: reply_with_def updateLeave_refused)
next
  case (DeleteLeave i)
  show ?thesis
  proof (cases "fst (deleteLeave e s i)")
    case (Inl err)
    with assms DeleteLeave show ?thesis
      by (simp add: reply_with_def Err_state [OF deleteLeave_error])
  next
    case (Inr leave)
    with assms DeleteLeave remove_leave_cover [of k v i "leaveStorage s"] show ?thesis
      by (auto simp: reply_with_def deleteLeave_Ok updateUsersAvailableDays_leaveStorage
          split: if_splits)
  qed
next
  case (UpdateLeaveStatus i st)
  show ?thesis
  proof (cases "fst (updateLeaveStatus e s i st)")
    case (Inl err)
    with assms UpdateLeaveStatus show ?thesis
      by (simp add: reply_with_def Err_state [OF updateLeaveStatus_error])
  next
    case (Inr leave)
    with assms UpdateLeaveStatus insert_cover [of k v "l_id leave" leave "leaveStorage s"] show ?thesis
      by (auto simp: reply_with_def updateLeaveStatus_Ok updateUsersAvailableDays_leaveStorage)
  qed
qed (use assms in \<open>simp_all add: reply_with_def\<close>)




section \<open>Falsy balances\<close>

text \<open>
  C10. Let \<open>u\<close> be stored for \<open>uid\<close> under its own id. A balance adjustment leaves
  \<open>availableDays\<close> as it is when the stored balance is 0 or the adjusted balance would
  be 0. So for a user with a balance of 0, rejecting a leave of the user succeeds and the
  balance stays 0, and deleting a PENDING leave of the user succeeds and the balance
  stays 0; and a request that takes the whole remaining balance succeeds and leaves
  \<open>availableDays\<close> unchanged.
\<close>

theorem zero_balance_skips:
  assumes "sbm_get uid (userStorage s) = Some u" and "u_id u = uid"
  shows
    "(u_availableDays u = Num 0
        \<or> (case opn of ADD \<Rightarrow> js_add (u_availableDays u) d
                      | SUBTRACT \<Rightarrow> js_sub (u_availableDays u) d) = Num 0 \<longrightarrow>
      availableDaysOf (snd (updateUsersAvailableDays e s uid d opn)) uid
        = Some (u_availableDays u))
   \<and> (isAdmin e s \<and> isValidUUID e i \<and> sbm_get i (leaveStorage s) = Some leave
        \<and> l_userId leave = uid \<and> u_availableDays u = Num 0 \<longrightarrow>
      fst (updateLeaveStatus e s i REJECTED)
        = Ok (leave\<lparr>l_status := REJECTED, l_updatedAt := Some (ic_time e)\<rparr>)
      \<and> availableDaysOf (snd (updateLeaveStatus e s i REJECTED)) uid = Some (Num 0))
   \<and> (isValidUUID e i \<and> sbm_get i (leaveStorage s) = Some leave
        \<and> l_userId leave = uid \<and> l_status leave = PENDING \<and> u_availableDays u = Num 0 \<longrightarrow>
      fst (deleteLeave e s i) = Ok leave
      \<and> availableDaysOf (snd (deleteLeave e s i)) uid = Some (Num 0))
   \<and> (ic_caller e = uid \<and> u_isActive u \<and> js_lt (lp_startDate p) (lp_endDate p)
        \<and> Date_getFullYear e (lp_startDate p) = currentYear e
        \<and> Date_getFullYear e (lp_endDate p) = currentYear e
        \<and> findDiffInDays (lp_startDate p) (lp_endDate p) = u_availableDays u \<longrightarrow>
      (\<exists>l. fst (requestLeave e s p) = Ok l \<and> l_days l = u_availableDays u)
      \<and> availableDaysOf (snd (requestLeave e s p)) uid = Some (u_availableDays u))"
proof -
  have helper: "\<And>s1 d opn. userStorage s1 = userStorage s \<Longrightarrow>
      availableDaysOf (snd (updateUsersAvailableDays e s1 uid d opn)) uid =
        Some (let a = u_availableDays u;
                  b = (case opn of ADD \<Rightarrow> js_add a d | SUBTRACT \<Rightarrow> js_sub a d)
              in if \<not> truthy a \<or> \<not> truthy b then a else b)"
    using assms by (intro updateUsersAvailableDays_balance) simp_all
  have zero: "\<not> truthy (Num 0)" by (simp add: truthy_def)
  have part1: "u_availableDays u = Num 0
        \<or> (case opn of ADD \<Rightarrow> js_add (u_availableDays u) d
                      | SUBTRACT \<Rightarrow> js_sub (u_availableDays u) d) = Num 0 \<longrightarrow>
      availableDaysOf (snd (updateUsersAvailableDays e s uid d opn)) uid
        = Some (u_availableDays u)"
    using helper [of s d opn] zero by (auto simp: Let_def)
  have part2: "isAdmin e s \<and> isValidUUID e i \<and> sbm_get i (leaveStorage s) = Some leave
        \<and> l_userId leave = uid \<and> u_availableDays u = Num 0 \<longrightarrow>
      fst (updateLeaveStatus e s i REJECTED)
        = Ok (leave\<lparr>l_status := REJECTED, l_updatedAt := Some (ic_time e)\<rparr>)
      \<and> availableDaysOf (snd (updateLeaveStatus e s i REJECTED)) uid = Some (Num 0)"
    using zero by (auto simp: updateLeaveStatus_def Let_def helper)
  have part3: "isValidUUID e i \<and> sbm_get i (leaveStorage s) = Some leave
        \<and> l_userId leave = uid \<and> l_status leave = PENDING \<and> u_availableDays u = Num 0 \<longrightarrow>
      fst (deleteLeave e s i) = Ok leave
      \<and> availableDaysOf (snd (deleteLeave e s i)) uid = Some (Num 0)"
    using zero
    by (auto simp: deleteLeave_def Let_def helper sbm_remove_def sbm_get_def PENDING_def)
  have part4: "ic_caller e = uid \<and> u_isActive u \<and> js_lt (lp_startDate p) (lp_endDate p)
        \<and> Date_getFullYear e (lp_startDate p) = currentYear e
        \<and> Date_getFullYear e (lp_endDate p) = currentYear e
        \<and> findDiffInDays (lp_startDate p) (lp_endDate p) = u_availableDays u \<longrightarrow>
      (\<exists>l. fst (requestLeave e s p) = Ok l \<and> l_days l = u_availableDays u)
      \<and> availableDaysOf (snd (requestLeave e s p)) uid = Some (u_availableDays u)"
    using assms(1) findDiffInDays_not_0 [of "lp_startDate p" "lp_endDate p"]
      js_lt_not_ge [of "lp_startDate p" "lp_endDate p"]
      js_lt_irrefl [of "u_availableDays u"] js_lt_irrefl [of "currentYear e"]
      not_truthy_sub_self [of "u_availableDays u"]
    by (auto simp: requestLeave_def isActive_def Let_def helper js_gt_def)
  show ?thesis
    using part1 part2 part3 part4 by blast
qed

text \<open>
  With a balance of 0, a refund of 4 days, rejecting Alice's leave and deleting her PENDING
  leave all leave the balance at 0; with a balance of 3, her request for three days is
  accepted and the balance is still 3.
\<close>

theorem zero_balance_skips_witness:
  "availableDaysOf (office_with (Num 0) PENDING) ''alice'' = Some (Num 0)
   \<and> availableDaysOf
        (snd (updateUsersAvailableDays (env_of ''alice'') (office_with (Num 0) PENDING)
               ''alice'' (Num 4) ADD))
        ''alice'' = Some (Num 0)
   \<and> fst (updateLeaveStatus (env_of ''alice'') (office_with (Num 0) PENDING) uuid_1 REJECTED)
       = Ok (leave_1\<lparr>l_status := REJECTED, l_updatedAt := Some 200\<rparr>)
   \<and> availableDaysOf
        (snd (updateLeaveStatus (env_of ''alice'') (office_with (Num 0) PENDING) uuid_1 REJECTED))
        ''alice'' = Some (Num 0)
   \<and> fst (deleteLeave (env_of ''alice'') (office_with (Num 0) PENDING) uuid_1) = Ok leave_1
   \<and> availableDaysOf
        (snd (deleteLeave (env_of ''alice'') (office_with (Num 0) PENDING) uuid_1))
        ''alice'' = Some (Num 0)
   \<and> (\<exists>l. fst (requestLeave (env_of ''alice'') (office_with (Num 3) PENDING)
               \<lparr>lp_startDate = Num 1675209600000, lp_endDate = Num 1675468800000\<rparr>) = Ok l
          \<and> l_days l = Num 3)
   \<and> availableDaysOf
        (snd (requestLeave (env_of ''alice'') (office_with (Num 3) PENDING)
               \<lparr>lp_startDate = Num 1675209600000, lp_endDate = Num 1675468800000\<rparr>))
        ''alice'' = Some (Num 3)"
proof -
  let ?e = "env_of ''alice''"
  let ?p = "\<lparr>lp_startDate = Num 1675209600000, lp_endDate = Num 1675468800000\<rparr>"
  have u0: "sbm_get ''alice'' (userStorage (office_with (Num 0) PENDING))
              = Some (alice\<lparr>u_availableDays := Num 0\<rparr>)"
    by (simp add: sbm_get_def ex_defs)
  have u3: "sbm_get ''alice'' (userStorage (office_with (Num 3) PENDING))
              = Some (alice\<lparr>u_availableDays := Num 3\<rparr>)"
    by (simp add: sbm_get_def ex_defs)
  have id0: "u_id (alice\<lparr>u_availableDays := Num 0\<rparr>) = ''alice''" by (simp add: alice_def)
  have id3: "u_id (alice\<lparr>u_availableDays := Num 3\<rparr>) = ''alice''" by (simp add: alice_def)
  have adm: "isAdmin ?e (office_with (Num 0) PENDING)"
    by (simp add: isAdmin_def sbm_get_def ex_defs)
  have uu: "isValidUUID ?e uuid_1" by (simp add: ex_defs)
  have lv: "sbm_get uuid_1 (leaveStorage (office_with (Num 0) PENDING)) = Some leave_1"
    by (simp add: sbm_get_def ex_defs)
  have own: "l_userId leave_1 = ''alice''" "l_status leave_1 = PENDING"
    by (simp_all add: leave_1_def)
  have d: "findDiffInDays (lp_startDate ?p) (lp_endDate ?p) = Num 3"
    by (simp add: findDiffInDays_Num oneDay_def)
  have lt: "js_lt (lp_startDate ?p) (lp_endDate ?p)" by (simp add: js_lt_def)
  have yr: "Date_getFullYear ?e (lp_startDate ?p) = currentYear ?e"
    "Date_getFullYear ?e (lp_endDate ?p) = currentYear ?e"
    by (simp_all add: js_defs ex_defs)
  have who: "ic_caller ?e = ''alice''" by (simp add: env_of_def)
  have t: "ic_time ?e = 200" by (simp add: env_of_def)
  have act: "u_isActive (alice\<lparr>u_availableDays := Num 3\<rparr>)" by (simp add: alice_def)
  have A: "availableDaysOf (office_with (Num 0) PENDING) ''alice'' = Some (Num 0)"
    by (simp add: availableDaysOf_def u0)
  note z0 = zero_balance_skips [OF u0 id0, where e = ?e and i = uuid_1 and leave = leave_1
      and d = "Num 4" and opn = ADD]
  note z3 = zero_balance_skips [OF u3 id3, where e = ?e and p = ?p]
  show ?thesis
    using z0 z3 A adm uu lv own d lt yr who t act by simp
qed

end
